theory Spec2Isabelle
  imports Main "HOL-Library.Word"
begin

unbundle bit_operations_syntax

section \<open>Machine types\<close>

text \<open>
  The driver is written for 32-bit LPC microcontrollers: \<open>u16\<close>, \<open>u32\<close> and \<open>u64\<close> are
  unsigned words, \<open>s32\<close> is a 32-bit word read in two's complement (\<open>sint\<close>) wherever the
  source compares it with \<open>0\<close>. Enumerations are C \<open>int\<close>s: several names of \<open>RegBits_t\<close>
  share the values 0 and 1, and the source passes one enumeration where another is
  declared, so they are modelled by their values.
\<close>

type_synonym u16 = "16 word"
type_synonym u32 = "32 word"
type_synonym u64 = "64 word"
type_synonym s32 = "32 word"

section \<open>Constants of ad5932.h\<close>

definition AD5932_PORT_BUSY :: s32 where [simp]: "AD5932_PORT_BUSY = 0xFFFF"
definition AD5932_PARAM_ERROR :: s32 where [simp]: "AD5932_PARAM_ERROR = 0xFFF0"
definition AD5932_ACCU_RESOLUTION :: u64 where [simp]: "AD5932_ACCU_RESOLUTION = 0x1000000"

type_synonym RegBits_t = "32 word"

definition DAC_EN :: RegBits_t where [simp]: "DAC_EN = 1"
definition DAC_DISABLE :: RegBits_t where [simp]: "DAC_DISABLE = 0"
definition SINE_OUT :: RegBits_t where [simp]: "SINE_OUT = 1"
definition TRIANGLE_OUT :: RegBits_t where [simp]: "TRIANGLE_OUT = 0"
definition MSBOUT_EN :: RegBits_t where [simp]: "MSBOUT_EN = 1"
definition MSBOUT_DISABLE :: RegBits_t where [simp]: "MSBOUT_DISABLE = 0"
definition AUTOMATIC_TRIGGER :: RegBits_t where [simp]: "AUTOMATIC_TRIGGER = 0"
definition EXTERNAL_TRIGGER :: RegBits_t where [simp]: "EXTERNAL_TRIGGER = 1"
definition SYNCSEL_END :: RegBits_t where [simp]: "SYNCSEL_END = 1"
definition SYNCSEL_SUBSEQVENT :: RegBits_t where [simp]: "SYNCSEL_SUBSEQVENT = 0"
definition SYNCOUT_EN :: RegBits_t where [simp]: "SYNCOUT_EN = 1"
definition SYNCOUT_DISABLE :: RegBits_t where [simp]: "SYNCOUT_DISABLE = 0"

text \<open>SPI control bits D15-12.\<close>

type_synonym AD5932_ControlRegs_t = "32 word"

definition AD5932_CREG :: AD5932_ControlRegs_t where [simp]: "AD5932_CREG = 0x0000"
definition AD5932_NINCR :: AD5932_ControlRegs_t where [simp]: "AD5932_NINCR = 0x1000"
definition AD5932_DFREQ_LO :: AD5932_ControlRegs_t where [simp]: "AD5932_DFREQ_LO = 0x2000"
definition AD5932_DFREQ_HI :: AD5932_ControlRegs_t where [simp]: "AD5932_DFREQ_HI = 0x3000"
definition AD5932_TINT_WCYCLES :: AD5932_ControlRegs_t where [simp]: "AD5932_TINT_WCYCLES = 0x4000"
definition AD5932_TINT_MCLKCYCLES :: AD5932_ControlRegs_t where [simp]: "AD5932_TINT_MCLKCYCLES = 0x6000"
definition AD5932_FSTART_LO :: AD5932_ControlRegs_t where [simp]: "AD5932_FSTART_LO = 0xC000"
definition AD5932_FSTART_HI :: AD5932_ControlRegs_t where [simp]: "AD5932_FSTART_HI = 0xD000"

text \<open>Sweep type control: \<open>true\<close> is 1 and \<open>false\<close> is 0.\<close>

type_synonym AD5932_SweepType_t = "32 word"

definition INCREMENTAL_SWEEP :: AD5932_SweepType_t where [simp]: "INCREMENTAL_SWEEP = 1"
definition DECREMENTAL_SWEEP :: AD5932_SweepType_t where [simp]: "DECREMENTAL_SWEEP = 0"

text \<open>Increment interval control.\<close>

type_synonym AD5932_IncIntervall_t = "32 word"

definition WAVE_OUT_BASED :: AD5932_IncIntervall_t where [simp]: "WAVE_OUT_BASED = 1"
definition MCLK_INP_BASED :: AD5932_IncIntervall_t where [simp]: "MCLK_INP_BASED = 0"

section \<open>The platform and the driver's state\<close>

text \<open>
  The driver reaches the hardware only through functions of the surrounding platform:
  the SSP peripheral (\<open>SSP_GetTransferStatus\<close>, \<open>SSP_Transfer\<close>), the four GPIO pins
  (\<open>SPARE0\<close> is FSYNC, \<open>SPARE1\<close> STANDBY, \<open>SPARE2\<close> CTRL, \<open>SPARE3\<close> INTERRUPT) and
  \<open>delay_us\<close>. Every call of one of them is recorded, in order, in a trace.
\<close>

datatype event =
    GetTransferStatus
  | Transfer u16
  | SPARE0_on | SPARE0_off
  | SPARE1_on | SPARE1_off
  | SPARE2_on | SPARE2_off
  | SPARE3_on | SPARE3_off
  | delay_us u32

text \<open>
  The SSP functions and the constant \<open>SSP_STATUS_CLEAR\<close> belong to the platform's SSP
  library, so they are parameters of the model. What the peripheral answers may depend
  on everything that has happened so far: both functions read the trace.
\<close>

record platform =
  SSP_STATUS_CLEAR :: s32
  SSP_GetTransferStatus :: "event list \<Rightarrow> s32"
  SSP_Transfer :: "event list \<Rightarrow> u16 \<Rightarrow> s32"

text \<open>
  The global variables \<open>ad5932CMD\<close> and \<open>ad5932MCLK\<close>, with the trace of platform calls
  (latest last). \<open>SSPPort\<close> is only handed to the SSP functions and is part of the
  platform here.
\<close>

record driver =
  ad5932CMD :: u16
  ad5932MCLK :: u32
  trace :: "event list"

definition call :: "event \<Rightarrow> driver \<Rightarrow> driver" where
  "call e s = s\<lparr>trace := trace s @ [e]\<rparr>"

text \<open>The words handed to \<open>SSP_Transfer\<close> in a trace, in order.\<close>

fun transferred :: "event list \<Rightarrow> u16 list" where
  "transferred [] = []"
| "transferred (Transfer w # es) = w # transferred es"
| "transferred (e # es) = transferred es"

text \<open>
  The division by \<open>ad5932MCLK\<close> is undefined in C when the clock is 0 (the driver was
  not initialised): the model reports it instead of computing a value.
\<close>

datatype fault = DivisionByZero

section \<open>Protocol driver\<close>

definition AD5932_SetFSYNCPin :: "bool \<Rightarrow> driver \<Rightarrow> driver" where
  "AD5932_SetFSYNCPin state s = (if state then call SPARE0_on s else call SPARE0_off s)"

definition AD5932_SetCTRLPin :: "bool \<Rightarrow> driver \<Rightarrow> driver" where
  "AD5932_SetCTRLPin state s = (if state then call SPARE2_on s else call SPARE2_off s)"

definition AD5932_SetINTPin :: "bool \<Rightarrow> driver \<Rightarrow> driver" where
  "AD5932_SetINTPin state s = (if state then call SPARE3_on s else call SPARE3_off s)"

definition AD5932_SetSTDBYPin :: "bool \<Rightarrow> driver \<Rightarrow> driver" where
  "AD5932_SetSTDBYPin state s = (if state then call SPARE1_on s else call SPARE1_off s)"

definition AD5932_SendSPICommand :: "platform \<Rightarrow> u16 \<Rightarrow> driver \<Rightarrow> s32 \<times> driver" where
  "AD5932_SendSPICommand p commandWord s =
     (let ret = SSP_GetTransferStatus p (trace s);
          s1 = call GetTransferStatus s
      in if ret = SSP_STATUS_CLEAR p then
           let s2 = AD5932_SetFSYNCPin False s1;
               ret = SSP_Transfer p (trace s2) commandWord;
               s3 = call (Transfer commandWord) s2;
               s4 = AD5932_SetFSYNCPin True s3
           in if 0 < sint ret then (0, s4) else (ret, s4)
         else (AD5932_PORT_BUSY, s1))"

definition AD5932_Init :: "u32 \<Rightarrow> driver \<Rightarrow> driver" where
  "AD5932_Init MCLK s =
     (let s1 = AD5932_SetCTRLPin False s;
          s2 = AD5932_SetINTPin False s1;
          s3 = AD5932_SetFSYNCPin True s2;
          s4 = AD5932_SetSTDBYPin False s3
      in s4\<lparr>ad5932MCLK := MCLK\<rparr>)"

definition AD5932_TriggerCTRLPin :: "driver \<Rightarrow> driver" where
  "AD5932_TriggerCTRLPin s =
     (let s1 = AD5932_SetCTRLPin True s;
          s2 = call (delay_us 100) s1
      in AD5932_SetCTRLPin False s2)"

section \<open>Command encoder\<close>

text \<open>
  \<open>temp |= v\<close> on a \<open>u16\<close> with an \<open>int\<close> operand: the disjunction is computed in 32 bits
  and stored back in 16.
\<close>

definition or_assign :: "u16 \<Rightarrow> 32 word \<Rightarrow> u16" where
  "or_assign temp v = ucast ((ucast temp :: 32 word) OR v)"

definition AD5932_SetControlRegister ::
  "platform \<Rightarrow> RegBits_t \<Rightarrow> RegBits_t \<Rightarrow> RegBits_t \<Rightarrow> RegBits_t \<Rightarrow> RegBits_t \<Rightarrow> RegBits_t
     \<Rightarrow> driver \<Rightarrow> s32 \<times> driver" where
  "AD5932_SetControlRegister p DAC_STATE WAVE_TYPE MBSOUT_STATE TRIGGER_TYPE SYNCSEL_STATE
       SYNCOUT_STATE s =
     (let temp = (1 :: u16);
          temp = or_assign temp (push_bit 1 1);
          temp = or_assign temp (push_bit 2 SYNCOUT_STATE);
          temp = or_assign temp (push_bit 3 SYNCSEL_STATE);
          temp = or_assign temp (push_bit 4 1);
          temp = or_assign temp (push_bit 5 TRIGGER_TYPE);
          temp = or_assign temp (push_bit 6 1);
          temp = or_assign temp (push_bit 7 1);
          temp = or_assign temp (push_bit 8 MBSOUT_STATE);
          temp = or_assign temp (push_bit 9 WAVE_TYPE);
          temp = or_assign temp (push_bit 10 DAC_STATE);
          temp = or_assign temp (push_bit 11 1);
          s1 = s\<lparr>ad5932CMD := ucast (AD5932_CREG OR ucast temp)\<rparr>
      in AD5932_SendSPICommand p (ad5932CMD s1) s1)"

definition AD5932_SetIncrement :: "platform \<Rightarrow> u16 \<Rightarrow> driver \<Rightarrow> s32 \<times> driver" where
  "AD5932_SetIncrement p v s =
     (if v > 4095 \<or> v < 2 then (AD5932_PARAM_ERROR, s)
      else
        let s1 = s\<lparr>ad5932CMD := ucast (AD5932_NINCR OR ucast v)\<rparr>
        in AD5932_SendSPICommand p (ad5932CMD s1) s1)"

definition AD5932_SetIncrementIntervall ::
  "platform \<Rightarrow> u16 \<Rightarrow> AD5932_IncIntervall_t \<Rightarrow> driver \<Rightarrow> s32 \<times> driver" where
  "AD5932_SetIncrementIntervall p v incrementBase s =
     (if v > 2047 \<or> v < 2 then (AD5932_PARAM_ERROR, s)
      else
        let s1 = (if incrementBase = WAVE_OUT_BASED
                  then s\<lparr>ad5932CMD := ucast (AD5932_TINT_WCYCLES OR ucast v)\<rparr>
                  else s\<lparr>ad5932CMD := ucast (MCLK_INP_BASED OR ucast v)\<rparr>)
        in AD5932_SendSPICommand p (ad5932CMD s1) s1)"

definition AD5932_SetDeltaFrequency ::
  "platform \<Rightarrow> u32 \<Rightarrow> AD5932_SweepType_t \<Rightarrow> driver \<Rightarrow> fault + s32 \<times> driver" where
  "AD5932_SetDeltaFrequency p v SweepType s =
     (if v > 0x7FFFFFFF then Inr (AD5932_PARAM_ERROR, s)
      else if ad5932MCLK s = 0 then Inl DivisionByZero
      else
        let tmp = (ucast ((ucast v :: u64) * AD5932_ACCU_RESOLUTION
                            div ucast (ad5932MCLK s)) :: u32);
            s1 = s\<lparr>ad5932CMD := ucast (AD5932_DFREQ_LO OR (tmp AND 0x00000FFF))\<rparr>;
            (ret, s2) = AD5932_SendSPICommand p (ad5932CMD s1) s1
        in if ret = AD5932_PORT_BUSY then Inr (ret, s2)
           else
             let s3 = s2\<lparr>ad5932CMD :=
                         ucast (AD5932_DFREQ_HI OR (drop_bit 12 tmp AND 0x00000FFF))\<rparr>;
                 s4 = (if SweepType = DECREMENTAL_SWEEP
                       then s3\<lparr>ad5932CMD := or_assign (ad5932CMD s3) (push_bit 11 1)\<rparr>
                       else s3);
                 (ret, s5) = AD5932_SendSPICommand p (ad5932CMD s4) s4
             in if ret = AD5932_PORT_BUSY then Inr (ret, s5) else Inr (0, s5))"

definition AD5932_SetStartFrequency ::
  "platform \<Rightarrow> u32 \<Rightarrow> driver \<Rightarrow> fault + s32 \<times> driver" where
  "AD5932_SetStartFrequency p v s =
     (if v > 0x7FFFFFFF \<or> v < 1 then Inr (AD5932_PARAM_ERROR, s)
      else if ad5932MCLK s = 0 then Inl DivisionByZero
      else
        let tmp = (ucast ((ucast v :: u64) * AD5932_ACCU_RESOLUTION
                            div ucast (ad5932MCLK s)) :: u32);
            s1 = s\<lparr>ad5932CMD := ucast (AD5932_FSTART_LO OR (tmp AND 0x00000FFF))\<rparr>;
            (ret, s2) = AD5932_SendSPICommand p (ad5932CMD s1) s1
        in if ret = AD5932_PORT_BUSY then Inr (ret, s2)
           else
             let s3 = s2\<lparr>ad5932CMD :=
                         ucast (AD5932_FSTART_HI OR (drop_bit 12 tmp AND 0x00000FFF))\<rparr>;
                 (ret, s4) = AD5932_SendSPICommand p (ad5932CMD s3) s3
             in if ret = AD5932_PORT_BUSY then Inr (ret, s4) else Inr (0, s4))"

section \<open>Sequencer\<close>

definition AD5932_SingleFrequencyGenerator ::
  "platform \<Rightarrow> u32 \<Rightarrow> RegBits_t \<Rightarrow> RegBits_t \<Rightarrow> RegBits_t \<Rightarrow> driver
     \<Rightarrow> fault + s32 \<times> driver" where
  "AD5932_SingleFrequencyGenerator p frequency WAVE_TYPE MSBOUT TRIGGER s =
     (let s0 = AD5932_SetCTRLPin False s;
          (ret, s1) = AD5932_SetControlRegister p DAC_EN WAVE_TYPE MSBOUT EXTERNAL_TRIGGER
                        SYNCSEL_END SYNCOUT_EN s0
      in if sint ret < 0 then Inr (- 1, s1)
         else
           case AD5932_SetStartFrequency p frequency s1 of
             Inl e \<Rightarrow> Inl e
           | Inr (ret, s2) \<Rightarrow>
               if sint ret < 0 then Inr (- 2, s2)
               else if TRIGGER = AUTOMATIC_TRIGGER then Inr (0, AD5932_TriggerCTRLPin s2)
               else Inr (0, s2))"

definition AD5932_SweepGenerator ::
  "platform \<Rightarrow> u32 \<Rightarrow> u32 \<Rightarrow> u32 \<Rightarrow> AD5932_IncIntervall_t \<Rightarrow> u32 \<Rightarrow> RegBits_t \<Rightarrow> RegBits_t
     \<Rightarrow> RegBits_t \<Rightarrow> RegBits_t \<Rightarrow> RegBits_t \<Rightarrow> RegBits_t \<Rightarrow> driver
     \<Rightarrow> fault + s32 \<times> driver" where
  "AD5932_SweepGenerator p startFreq deltaFrerq increment INCRTYPE incIntervall SWEEPTYPE
       WAVE_TYPE MSBOUT TRIGGER SYNCSEL SYNCOUT s =
     (let s0 = AD5932_SetCTRLPin False s;
          (ret, s1) = AD5932_SetControlRegister p DAC_EN WAVE_TYPE MSBOUT TRIGGER SYNCSEL
                        SYNCOUT s0
      in if sint ret < 0 then Inr (- 1, s1)
         else
           case AD5932_SetStartFrequency p startFreq s1 of
             Inl e \<Rightarrow> Inl e
           | Inr (ret, s2) \<Rightarrow>
               if sint ret < 0 then Inr (- 2, s2)
               else
                 case AD5932_SetDeltaFrequency p deltaFrerq SWEEPTYPE s2 of
                   Inl e \<Rightarrow> Inl e
                 | Inr (ret, s3) \<Rightarrow>
                     if sint ret < 0 then Inr (- 3, s3)
                     else
                       let (ret, s4) =
                             AD5932_SetIncrementIntervall p (ucast incIntervall) INCRTYPE s3
                       in if sint ret < 0 then Inr (- 4, s4)
                          else
                            let (ret, s5) = AD5932_SetIncrement p (ucast increment) s4
                            in if sint ret < 0 then Inr (- 5, s5)
                               else if TRIGGER = AUTOMATIC_TRIGGER
                               then Inr (0, AD5932_TriggerCTRLPin s5)
                               else Inr (0, s5))"

definition AD5932_TestSetup :: "platform \<Rightarrow> driver \<Rightarrow> fault + s32 \<times> driver" where
  "AD5932_TestSetup p s =
     (let s0 = AD5932_SetCTRLPin False s;
          (ret, s1) = AD5932_SetControlRegister p DAC_EN SINE_OUT MSBOUT_EN AUTOMATIC_TRIGGER
                        SYNCSEL_END SYNCOUT_EN s0
      in if sint ret < 0 then Inr (- 1, s1)
         else
           case AD5932_SetStartFrequency p 1000 s1 of
             Inl e \<Rightarrow> Inl e
           | Inr (ret, s2) \<Rightarrow>
               if sint ret < 0 then Inr (- 2, s2)
               else
                 case AD5932_SetDeltaFrequency p 1000 INCREMENTAL_SWEEP s2 of
                   Inl e \<Rightarrow> Inl e
                 | Inr (ret, s3) \<Rightarrow>
                     if sint ret < 0 then Inr (- 3, s3)
                     else
                       let (ret, s4) = AD5932_SetIncrementIntervall p 2000 WAVE_OUT_BASED s3
                       in if sint ret < 0 then Inr (- 4, s4)
                          else
                            let (ret, s5) = AD5932_SetIncrement p 2 s4
                            in if sint ret < 0 then Inr (- 5, s5)
                               else Inr (0, AD5932_TriggerCTRLPin s5))"

section \<open>Example platforms\<close>

text \<open>
  Three platforms and a start state for the concrete runs below: a bus that is always
  clear and completes every transfer, a bus that is always busy, and a bus that is clear
  but fails every transfer with \<open>-1\<close>. \<open>boot\<close> is the driver before \<open>AD5932_Init\<close>, its
  globals zero-initialised and nothing called yet.
\<close>

definition healthy_bus :: platform where
  "healthy_bus =
     \<lparr>SSP_STATUS_CLEAR = 0, SSP_GetTransferStatus = (\<lambda>h. 0), SSP_Transfer = (\<lambda>h w. 1)\<rparr>"

definition busy_bus :: platform where
  "busy_bus =
     \<lparr>SSP_STATUS_CLEAR = 0, SSP_GetTransferStatus = (\<lambda>h. 1), SSP_Transfer = (\<lambda>h w. 1)\<rparr>"

definition faulty_bus :: platform where
  "faulty_bus =
     \<lparr>SSP_STATUS_CLEAR = 0, SSP_GetTransferStatus = (\<lambda>h. 0), SSP_Transfer = (\<lambda>h w. - 1)\<rparr>"

definition boot :: driver where
  "boot = \<lparr>ad5932CMD = 0, ad5932MCLK = 0, trace = []\<rparr>"

section \<open>Traces and the protocol driver\<close>

lemma transferred_append: "transferred (xs @ ys) = transferred xs @ transferred ys"
  by (induction xs rule: transferred.induct) simp_all

lemma SendSPICommand_clear:
  assumes "SSP_GetTransferStatus p (trace s) = SSP_STATUS_CLEAR p"
  shows "AD5932_SendSPICommand p w s =
           (let r = SSP_Transfer p (trace s @ [GetTransferStatus, SPARE0_off]) w
            in (if 0 < sint r then 0 else r,
                s\<lparr>trace := trace s @ [GetTransferStatus, SPARE0_off, Transfer w, SPARE0_on]\<rparr>))"
  using assms
  by (simp add: AD5932_SendSPICommand_def AD5932_SetFSYNCPin_def call_def Let_def)

lemma SendSPICommand_busy:
  assumes "SSP_GetTransferStatus p (trace s) \<noteq> SSP_STATUS_CLEAR p"
  shows "AD5932_SendSPICommand p w s =
           (AD5932_PORT_BUSY, s\<lparr>trace := trace s @ [GetTransferStatus]\<rparr>)"
  using assms
  by (simp add: AD5932_SendSPICommand_def call_def Let_def)

lemma SendSPICommand_ad5932CMD:
  "ad5932CMD (snd (AD5932_SendSPICommand p w s)) = ad5932CMD s"
  by (simp add: AD5932_SendSPICommand_def AD5932_SetFSYNCPin_def call_def Let_def)

text \<open>A completed transfer never looks like \<open>AD5932_PORT_BUSY\<close>: positive results become 0.\<close>

lemma transfer_result_not_busy [simp]:
  "((if 0 < sint r then 0 else r) = (0xFFFF :: s32)) = False"
proof -
  have "r \<noteq> 0xFFFF" if "\<not> 0 < sint r"
  proof
    assume "r = 0xFFFF"
    then have "sint r = 65535" by simp
    with that show False by simp
  qed
  then show ?thesis by simp
qed

text \<open>
  C8. A word handed to the protocol driver while the bus is not clear is not sent: the
  driver returns \<open>AD5932_PORT_BUSY\<close> and has only polled the status, with neither FSYNC
  edge and no transfer. On a clear bus FSYNC is driven low (\<open>SPARE0_off\<close>) before the
  transfer and high (\<open>SPARE0_on\<close>) after it, whatever the transfer returns.
\<close>

theorem AD5932_SendSPICommand_framing:
  "(SSP_GetTransferStatus p (trace s) \<noteq> SSP_STATUS_CLEAR p \<longrightarrow>
      AD5932_SendSPICommand p w s =
        (AD5932_PORT_BUSY, s\<lparr>trace := trace s @ [GetTransferStatus]\<rparr>)) \<and>
   (SSP_GetTransferStatus p (trace s) = SSP_STATUS_CLEAR p \<longrightarrow>
      snd (AD5932_SendSPICommand p w s) =
        s\<lparr>trace := trace s @ [GetTransferStatus, SPARE0_off, Transfer w, SPARE0_on]\<rparr>)"
  by (simp add: SendSPICommand_clear SendSPICommand_busy Let_def)

theorem AD5932_SendSPICommand_framing_witness:
  "AD5932_SendSPICommand busy_bus 0x1002 boot =
     (AD5932_PORT_BUSY, boot\<lparr>trace := [GetTransferStatus]\<rparr>) \<and>
   snd (AD5932_SendSPICommand faulty_bus 0x1002 boot) =
     boot\<lparr>trace := [GetTransferStatus, SPARE0_off, Transfer 0x1002, SPARE0_on]\<rparr>"
  using AD5932_SendSPICommand_framing [of busy_bus boot "0x1002"]
    AD5932_SendSPICommand_framing [of faulty_bus boot "0x1002"]
  by (simp add: busy_bus_def faulty_bus_def boot_def)

section \<open>The accumulator value and its two command words\<close>

text \<open>
  The 64-bit product of a 32-bit frequency and \<open>2^24\<close> does not wrap, so the quotient is
  the mathematical one; it is then narrowed to \<open>u32\<close>.
\<close>

lemma accumulator_unat:
  fixes v m :: u32
  shows "unat ((ucast v :: u64) * 0x1000000 div ucast m) = unat v * 2 ^ 24 div unat m"
proof -
  have lt: "unat v < 2 ^ 32" "unat m < 2 ^ 32"
    using unsigned_less [of v] unsigned_less [of m] by simp_all
  then have "unat v < 2 ^ 64" "unat m < 2 ^ 64" by simp_all
  then have v: "unat (ucast v :: u64) = unat v" and m: "unat (ucast m :: u64) = unat m"
    by (simp_all add: unsigned_ucast_eq take_bit_nat_eq_self)
  from lt(1) have "unat v * 2 ^ 24 < 2 ^ 32 * (2 ^ 24 :: nat)" by simp
  then have small: "unat v * 2 ^ 24 < (2 ^ 64 :: nat)" by simp
  have "unat ((ucast v :: u64) * 0x1000000) = unat (ucast v :: u64) * unat (0x1000000 :: u64)"
    using small by (subst unat_mult_lem [THEN iffD1]) (simp_all add: v)
  then have "unat ((ucast v :: u64) * 0x1000000) = unat v * 2 ^ 24" by (simp add: v)
  then show ?thesis by (simp add: unat_div m)
qed

lemma accumulator_tmp:
  fixes v m :: u32
  assumes "v < m"
  shows "unat (ucast ((ucast v :: u64) * 0x1000000 div ucast m) :: u32)
           = unat v * 2 ^ 24 div unat m"
    and "unat v * 2 ^ 24 div unat m < 2 ^ 24"
proof -
  have "unat v < unat m" using assms by (simp add: word_less_nat_alt)
  then have "unat v * 2 ^ 24 < unat m * 2 ^ 24" by simp
  then show b: "unat v * 2 ^ 24 div unat m < 2 ^ 24"
    by (simp add: less_mult_imp_div_less mult.commute)
  have "unat (ucast ((ucast v :: u64) * 0x1000000 div ucast m) :: u32)
          = unat ((ucast v :: u64) * 0x1000000 div ucast m) mod 2 ^ 32"
    by (simp add: unsigned_ucast_eq take_bit_eq_mod)
  also have "\<dots> = unat v * 2 ^ 24 div unat m"
    using b by (simp add: accumulator_unat)
  finally show "unat (ucast ((ucast v :: u64) * 0x1000000 div ucast m) :: u32)
                  = unat v * 2 ^ 24 div unat m" .
qed

text \<open>A command word: selector in bits 15:12, payload in bits 11:0.\<close>

lemma command_payload:
  fixes c x :: "32 word"
  shows "(ucast (push_bit 12 c OR (x AND mask 12)) :: u16) AND mask 12 = ucast (take_bit 12 x)"
  by (rule bit_word_eqI) (auto simp: bit_simps)

lemma command_selector:
  fixes c x :: "32 word"
  shows "drop_bit 12 (ucast (push_bit 12 c OR (x AND mask 12)) :: u16) = take_bit 4 (ucast c)"
  by (rule bit_word_eqI) (auto simp: bit_simps)

lemma mask_12: "(mask 12 :: 'a::len word) = 0xFFF"
  by (simp add: mask_eq_exp_minus_1)

lemma payload_words:
  fixes x :: "32 word"
  shows "(ucast (0xC000 OR (x AND 0xFFF)) :: u16) AND 0xFFF = ucast (take_bit 12 x)"
    and "(ucast (0xD000 OR (x AND 0xFFF)) :: u16) AND 0xFFF = ucast (take_bit 12 x)"
    and "(ucast (0x2000 OR (x AND 0xFFF)) :: u16) AND 0xFFF = ucast (take_bit 12 x)"
    and "(ucast (0x3000 OR (x AND 0xFFF)) :: u16) AND 0xFFF = ucast (take_bit 12 x)"
  using command_payload [of "0xC" x] command_payload [of "0xD" x]
    command_payload [of "0x2" x] command_payload [of "0x3" x]
  by (simp_all add: mask_12)

lemma selector_words:
  fixes x :: "32 word"
  shows "drop_bit 12 (ucast (0xC000 OR (x AND 0xFFF)) :: u16) = 0xC"
    and "drop_bit 12 (ucast (0xD000 OR (x AND 0xFFF)) :: u16) = 0xD"
    and "drop_bit 12 (ucast (0x2000 OR (x AND 0xFFF)) :: u16) = 0x2"
    and "drop_bit 12 (ucast (0x3000 OR (x AND 0xFFF)) :: u16) = 0x3"
  using command_selector [of "0xC" x] command_selector [of "0xD" x]
    command_selector [of "0x2" x] command_selector [of "0x3" x]
  by (simp_all add: mask_12)

lemma unat_payload:
  fixes x :: "32 word"
  shows "unat (ucast (take_bit 12 x) :: u16) = unat x mod 4096"
proof -
  have "unat (ucast (take_bit 12 x) :: u16) = take_bit 12 (unat x)"
    by (simp add: unsigned_ucast_eq unsigned_take_bit_eq)
  also have "\<dots> = unat x mod 4096" by (simp add: take_bit_eq_mod)
  finally show ?thesis .
qed

lemma unat_drop_bit_12:
  fixes x :: "32 word"
  shows "unat (drop_bit 12 x) = unat x div 4096"
proof -
  have "unat (drop_bit 12 x) = drop_bit 12 (unat x)" by (rule unat_drop_bit_eq)
  also have "\<dots> = unat x div 4096" by (simp add: drop_bit_eq_div)
  finally show ?thesis .
qed

lemma split_accumulator:
  fixes a :: nat
  assumes "a < 2 ^ 24"
  shows "a div 4096 mod 4096 * 4096 + a mod 4096 = a"
proof -
  have "a div 4096 < 4096" using assms by simp
  then show ?thesis by simp
qed

section \<open>The frequency setters on a clear bus\<close>

lemma SetDeltaFrequency_clear:
  assumes clear: "\<And>h. SSP_GetTransferStatus p h = SSP_STATUS_CLEAR p"
    and range: "v \<le> 0x7FFFFFFF" and clock: "ad5932MCLK s \<noteq> 0"
  shows "AD5932_SetDeltaFrequency p v t s =
           (let tmp = (ucast ((ucast v :: u64) * 0x1000000 div ucast (ad5932MCLK s)) :: u32);
                lo = (ucast (0x2000 OR (tmp AND 0xFFF)) :: u16);
                hi = (ucast (0x3000 OR (drop_bit 12 tmp AND 0xFFF)) :: u16);
                hi = (if t = DECREMENTAL_SWEEP then or_assign hi (push_bit 11 1) else hi)
            in Inr (0, s\<lparr>ad5932CMD := hi,
                         trace := trace s @
                           [GetTransferStatus, SPARE0_off, Transfer lo, SPARE0_on,
                            GetTransferStatus, SPARE0_off, Transfer hi, SPARE0_on]\<rparr>))"
proof -
  have "\<not> 0x7FFFFFFF < v" using range by (simp add: not_less)
  then show ?thesis
    using clock
    by (simp add: AD5932_SetDeltaFrequency_def SendSPICommand_clear clear Let_def)
qed

lemma SetStartFrequency_clear:
  assumes clear: "\<And>h. SSP_GetTransferStatus p h = SSP_STATUS_CLEAR p"
    and range: "v \<le> 0x7FFFFFFF" "v \<noteq> 0" and clock: "ad5932MCLK s \<noteq> 0"
  shows "AD5932_SetStartFrequency p v s =
           (let tmp = (ucast ((ucast v :: u64) * 0x1000000 div ucast (ad5932MCLK s)) :: u32);
                lo = (ucast (0xC000 OR (tmp AND 0xFFF)) :: u16);
                hi = (ucast (0xD000 OR (drop_bit 12 tmp AND 0xFFF)) :: u16)
            in Inr (0, s\<lparr>ad5932CMD := hi,
                         trace := trace s @
                           [GetTransferStatus, SPARE0_off, Transfer lo, SPARE0_on,
                            GetTransferStatus, SPARE0_off, Transfer hi, SPARE0_on]\<rparr>))"
proof -
  have "\<not> 0x7FFFFFFF < v" "\<not> v < 1"
    using range by (simp_all add: not_less word_less_1)
  then show ?thesis
    using clock
    by (simp add: AD5932_SetStartFrequency_def SendSPICommand_clear clear Let_def)
qed

lemma SetStartFrequency_accumulator:
  assumes clear: "\<And>h. SSP_GetTransferStatus p h = SSP_STATUS_CLEAR p"
    and f: "0 < f" "f < ad5932MCLK s" "f \<le> 0x7FFFFFFF"
  shows "\<exists>lo hi s'. AD5932_SetStartFrequency p f s = Inr (0, s') \<and>
           transferred (trace s') = transferred (trace s) @ [lo, hi] \<and>
           drop_bit 12 lo = 0xC \<and> drop_bit 12 hi = 0xD \<and>
           unat (hi AND 0xFFF) * 4096 + unat (lo AND 0xFFF)
             = unat f * 2 ^ 24 div unat (ad5932MCLK s)"
proof -
  define tmp :: u32 where "tmp = ucast ((ucast f :: u64) * 0x1000000 div ucast (ad5932MCLK s))"
  define lo :: u16 where "lo = ucast (0xC000 OR (tmp AND 0xFFF))"
  define hi :: u16 where "hi = ucast (0xD000 OR (drop_bit 12 tmp AND 0xFFF))"
  have nz: "f \<noteq> 0" "ad5932MCLK s \<noteq> 0" using f by auto
  have acc: "unat tmp = unat f * 2 ^ 24 div unat (ad5932MCLK s)" "unat tmp < 2 ^ 24"
    using accumulator_tmp [OF f(2)] by (simp_all add: tmp_def)
  have run: "AD5932_SetStartFrequency p f s =
      Inr (0, s\<lparr>ad5932CMD := hi, trace := trace s @
                   [GetTransferStatus, SPARE0_off, Transfer lo, SPARE0_on,
                    GetTransferStatus, SPARE0_off, Transfer hi, SPARE0_on]\<rparr>)"
    using SetStartFrequency_clear [OF clear f(3) nz]
    by (simp add: Let_def tmp_def lo_def hi_def)
  have "unat (hi AND 0xFFF) * 4096 + unat (lo AND 0xFFF)
          = unat tmp div 4096 mod 4096 * 4096 + unat tmp mod 4096"
    by (simp only: lo_def hi_def payload_words unat_payload unat_drop_bit_12)
  also have "\<dots> = unat tmp" by (rule split_accumulator [OF acc(2)])
  finally have "unat (hi AND 0xFFF) * 4096 + unat (lo AND 0xFFF)
                  = unat f * 2 ^ 24 div unat (ad5932MCLK s)"
    by (simp only: acc)
  moreover have "drop_bit 12 lo = 0xC" "drop_bit 12 hi = 0xD"
    by (simp_all only: lo_def hi_def selector_words)
  moreover have "transferred (trace (s\<lparr>ad5932CMD := hi, trace := trace s @
                   [GetTransferStatus, SPARE0_off, Transfer lo, SPARE0_on,
                    GetTransferStatus, SPARE0_off, Transfer hi, SPARE0_on]\<rparr>))
                 = transferred (trace s) @ [lo, hi]"
    by (simp add: transferred_append)
  ultimately show ?thesis using run by blast
qed

lemma SetDeltaFrequency_accumulator:
  assumes clear: "\<And>h. SSP_GetTransferStatus p h = SSP_STATUS_CLEAR p"
    and f: "f < ad5932MCLK s" "f \<le> 0x7FFFFFFF"
  shows "\<exists>lo hi s'. AD5932_SetDeltaFrequency p f INCREMENTAL_SWEEP s = Inr (0, s') \<and>
           transferred (trace s') = transferred (trace s) @ [lo, hi] \<and>
           drop_bit 12 lo = 0x2 \<and> drop_bit 12 hi = 0x3 \<and>
           unat (hi AND 0xFFF) * 4096 + unat (lo AND 0xFFF)
             = unat f * 2 ^ 24 div unat (ad5932MCLK s)"
proof -
  define tmp :: u32 where "tmp = ucast ((ucast f :: u64) * 0x1000000 div ucast (ad5932MCLK s))"
  define lo :: u16 where "lo = ucast (0x2000 OR (tmp AND 0xFFF))"
  define hi :: u16 where "hi = ucast (0x3000 OR (drop_bit 12 tmp AND 0xFFF))"
  have nz: "ad5932MCLK s \<noteq> 0" using f by auto
  have acc: "unat tmp = unat f * 2 ^ 24 div unat (ad5932MCLK s)" "unat tmp < 2 ^ 24"
    using accumulator_tmp [OF f(1)] by (simp_all add: tmp_def)
  have run: "AD5932_SetDeltaFrequency p f INCREMENTAL_SWEEP s =
      Inr (0, s\<lparr>ad5932CMD := hi, trace := trace s @
                   [GetTransferStatus, SPARE0_off, Transfer lo, SPARE0_on,
                    GetTransferStatus, SPARE0_off, Transfer hi, SPARE0_on]\<rparr>)"
    using SetDeltaFrequency_clear [OF clear f(2) nz, of INCREMENTAL_SWEEP]
    by (simp add: Let_def tmp_def lo_def hi_def)
  have "unat (hi AND 0xFFF) * 4096 + unat (lo AND 0xFFF)
          = unat tmp div 4096 mod 4096 * 4096 + unat tmp mod 4096"
    by (simp only: lo_def hi_def payload_words unat_payload unat_drop_bit_12)
  also have "\<dots> = unat tmp" by (rule split_accumulator [OF acc(2)])
  finally have "unat (hi AND 0xFFF) * 4096 + unat (lo AND 0xFFF)
                  = unat f * 2 ^ 24 div unat (ad5932MCLK s)"
    by (simp only: acc)
  moreover have "drop_bit 12 lo = 0x2" "drop_bit 12 hi = 0x3"
    by (simp_all only: lo_def hi_def selector_words)
  moreover have "transferred (trace (s\<lparr>ad5932CMD := hi, trace := trace s @
                   [GetTransferStatus, SPARE0_off, Transfer lo, SPARE0_on,
                    GetTransferStatus, SPARE0_off, Transfer hi, SPARE0_on]\<rparr>))
                 = transferred (trace s) @ [lo, hi]"
    by (simp add: transferred_append)
  ultimately show ?thesis using run by blast
qed

section \<open>Concrete runs\<close>

text \<open>The definitions a concrete run unfolds.\<close>

lemmas driver_defs =
  AD5932_SetFSYNCPin_def AD5932_SetCTRLPin_def AD5932_SetINTPin_def AD5932_SetSTDBYPin_def
  AD5932_SendSPICommand_def AD5932_Init_def AD5932_TriggerCTRLPin_def or_assign_def
  AD5932_SetControlRegister_def AD5932_SetIncrement_def AD5932_SetIncrementIntervall_def
  AD5932_SetDeltaFrequency_def AD5932_SetStartFrequency_def call_def Let_def
  healthy_bus_def busy_bus_def faulty_bus_def boot_def

section \<open>Frequency programming\<close>

text \<open>
  C1 (amended). On a bus that is clear at every poll, for every frequency \<open>f\<close> with
  \<open>0 < f < mclk\<close> and \<open>f \<le> 2^31 - 1\<close>, programming the start frequency transfers exactly
  two words, with selectors \<open>1100\<close> and \<open>1101\<close>, whose 12-bit payloads give
  \<open>high * 4096 + low = floor (f * 2^24 / mclk)\<close>; programming the delta frequency of an
  incrementing sweep does the same with selectors \<open>0010\<close> and \<open>0011\<close>; and this accumulator
  value is below \<open>2^24\<close>.
\<close>

theorem frequency_words_reconstruct_accumulator:
  assumes clear: "\<And>h. SSP_GetTransferStatus p h = SSP_STATUS_CLEAR p"
    and f: "0 < f" "f < ad5932MCLK s" "f \<le> 0x7FFFFFFF"
  shows "(\<exists>lo hi s'. AD5932_SetStartFrequency p f s = Inr (0, s') \<and>
            transferred (trace s') = transferred (trace s) @ [lo, hi] \<and>
            drop_bit 12 lo = 0xC \<and> drop_bit 12 hi = 0xD \<and>
            unat (hi AND 0xFFF) * 4096 + unat (lo AND 0xFFF)
              = unat f * 2 ^ 24 div unat (ad5932MCLK s)) \<and>
         (\<exists>lo hi s'. AD5932_SetDeltaFrequency p f INCREMENTAL_SWEEP s = Inr (0, s') \<and>
            transferred (trace s') = transferred (trace s) @ [lo, hi] \<and>
            drop_bit 12 lo = 0x2 \<and> drop_bit 12 hi = 0x3 \<and>
            unat (hi AND 0xFFF) * 4096 + unat (lo AND 0xFFF)
              = unat f * 2 ^ 24 div unat (ad5932MCLK s)) \<and>
         unat f * 2 ^ 24 div unat (ad5932MCLK s) < 2 ^ 24"
  using SetStartFrequency_accumulator [OF clear f]
    SetDeltaFrequency_accumulator [OF clear f(2,3)] accumulator_tmp(2) [OF f(2)]
  by blast

theorem frequency_words_reconstruct_accumulator_witness:
  "(\<exists>lo hi s'. AD5932_SetStartFrequency healthy_bus 1000 (AD5932_Init 50000000 boot)
                   = Inr (0, s') \<and>
      transferred (trace s') = transferred (trace (AD5932_Init 50000000 boot)) @ [lo, hi] \<and>
      drop_bit 12 lo = 0xC \<and> drop_bit 12 hi = 0xD \<and>
      unat (hi AND 0xFFF) * 4096 + unat (lo AND 0xFFF)
        = unat (1000 :: u32) * 2 ^ 24 div unat (ad5932MCLK (AD5932_Init 50000000 boot))) \<and>
   (\<exists>lo hi s'. AD5932_SetDeltaFrequency healthy_bus 1000 INCREMENTAL_SWEEP
                   (AD5932_Init 50000000 boot) = Inr (0, s') \<and>
      transferred (trace s') = transferred (trace (AD5932_Init 50000000 boot)) @ [lo, hi] \<and>
      drop_bit 12 lo = 0x2 \<and> drop_bit 12 hi = 0x3 \<and>
      unat (hi AND 0xFFF) * 4096 + unat (lo AND 0xFFF)
        = unat (1000 :: u32) * 2 ^ 24 div unat (ad5932MCLK (AD5932_Init 50000000 boot))) \<and>
   unat (1000 :: u32) * 2 ^ 24 div unat (ad5932MCLK (AD5932_Init 50000000 boot)) < 2 ^ 24"
proof (rule frequency_words_reconstruct_accumulator)
  show "SSP_GetTransferStatus healthy_bus h = SSP_STATUS_CLEAR healthy_bus" for h
    by (simp add: healthy_bus_def)
  show "(0 :: u32) < 1000" by simp
  show "1000 < ad5932MCLK (AD5932_Init 50000000 boot)"
    by (simp add: driver_defs)
  show "(1000 :: u32) \<le> 0x7FFFFFFF" by simp
qed

text \<open>
  The claim as stated fails in three places. At \<open>f = mclk\<close> the accumulator value is
  \<open>2^24\<close>, which is not below \<open>2^24\<close>, and the two payloads are 0. A frequency above
  \<open>2^31 - 1\<close> is rejected even when it is not above the clock. A decrementing delta
  frequency carries the direction in bit 11 of the high payload.
\<close>

theorem frequency_words_counterexample:
  "AD5932_SetStartFrequency healthy_bus 1000 (AD5932_Init 1000 boot) =
     Inr (0, \<lparr>ad5932CMD = 0xD000, ad5932MCLK = 1000,
              trace = [SPARE2_off, SPARE3_off, SPARE0_on, SPARE1_off,
                       GetTransferStatus, SPARE0_off, Transfer 0xC000, SPARE0_on,
                       GetTransferStatus, SPARE0_off, Transfer 0xD000, SPARE0_on]\<rparr>) \<and>
   unat ((0xD000 :: u16) AND 0xFFF) * 4096 + unat ((0xC000 :: u16) AND 0xFFF)
     \<noteq> unat (1000 :: u32) * 2 ^ 24 div unat (1000 :: u32) \<and>
   \<not> unat (1000 :: u32) * 2 ^ 24 div unat (1000 :: u32) < 2 ^ 24 \<and>
   AD5932_SetStartFrequency healthy_bus 0x80000000 (AD5932_Init 0xFFFFFFFF boot) =
     Inr (AD5932_PARAM_ERROR, AD5932_Init 0xFFFFFFFF boot) \<and>
   AD5932_SetDeltaFrequency healthy_bus 1 DECREMENTAL_SWEEP (AD5932_Init 0x1000000 boot) =
     Inr (0, \<lparr>ad5932CMD = 0x3800, ad5932MCLK = 0x1000000,
              trace = [SPARE2_off, SPARE3_off, SPARE0_on, SPARE1_off,
                       GetTransferStatus, SPARE0_off, Transfer 0x2001, SPARE0_on,
                       GetTransferStatus, SPARE0_off, Transfer 0x3800, SPARE0_on]\<rparr>) \<and>
   unat ((0x3800 :: u16) AND 0xFFF) * 4096 + unat ((0x2001 :: u16) AND 0xFFF)
     \<noteq> unat (1 :: u32) * 2 ^ 24 div unat (0x1000000 :: u32)"
  by (simp add: driver_defs)

text \<open>
  C10. The start-frequency setter rejects 0 with \<open>AD5932_PARAM_ERROR\<close> and calls nothing
  on the platform; the delta-frequency setter accepts 0 and, on a clear bus with the
  clock configured, transfers the two words of accumulator value 0 (\<open>0x2000\<close>, then
  \<open>0x3000\<close> with the direction bit of a decrementing sweep) and returns 0.
\<close>

theorem zero_frequency_start_rejected_delta_accepted:
  "AD5932_SetStartFrequency p 0 s = Inr (AD5932_PARAM_ERROR, s) \<and>
   ((\<forall>h. SSP_GetTransferStatus p h = SSP_STATUS_CLEAR p) \<and> ad5932MCLK s \<noteq> 0 \<longrightarrow>
      AD5932_SetDeltaFrequency p 0 t s =
        Inr (0, s\<lparr>ad5932CMD := (if t = DECREMENTAL_SWEEP then 0x3800 else 0x3000),
                  trace := trace s @
                    [GetTransferStatus, SPARE0_off, Transfer 0x2000, SPARE0_on,
                     GetTransferStatus, SPARE0_off,
                     Transfer (if t = DECREMENTAL_SWEEP then 0x3800 else 0x3000),
                     SPARE0_on]\<rparr>))"
proof (intro conjI impI)
  show "AD5932_SetStartFrequency p 0 s = Inr (AD5932_PARAM_ERROR, s)"
    by (simp add: AD5932_SetStartFrequency_def)
next
  assume a: "(\<forall>h. SSP_GetTransferStatus p h = SSP_STATUS_CLEAR p) \<and> ad5932MCLK s \<noteq> 0"
  then have clear: "\<And>h. SSP_GetTransferStatus p h = SSP_STATUS_CLEAR p"
    and clock: "ad5932MCLK s \<noteq> 0" by simp_all
  have "(0 :: u32) \<le> 0x7FFFFFFF" by simp
  from SetDeltaFrequency_clear [OF clear this clock, of t]
  show "AD5932_SetDeltaFrequency p 0 t s =
        Inr (0, s\<lparr>ad5932CMD := (if t = DECREMENTAL_SWEEP then 0x3800 else 0x3000),
                  trace := trace s @
                    [GetTransferStatus, SPARE0_off, Transfer 0x2000, SPARE0_on,
                     GetTransferStatus, SPARE0_off,
                     Transfer (if t = DECREMENTAL_SWEEP then 0x3800 else 0x3000),
                     SPARE0_on]\<rparr>)"
    by (simp add: Let_def or_assign_def)
qed

theorem zero_frequency_start_rejected_delta_accepted_witness:
  "AD5932_SetStartFrequency healthy_bus 0 (AD5932_Init 16000000 boot) =
     Inr (AD5932_PARAM_ERROR, AD5932_Init 16000000 boot) \<and>
   AD5932_SetDeltaFrequency healthy_bus 0 DECREMENTAL_SWEEP (AD5932_Init 16000000 boot) =
     Inr (0, \<lparr>ad5932CMD = 0x3800, ad5932MCLK = 16000000,
              trace = [SPARE2_off, SPARE3_off, SPARE0_on, SPARE1_off,
                       GetTransferStatus, SPARE0_off, Transfer 0x2000, SPARE0_on,
                       GetTransferStatus, SPARE0_off, Transfer 0x3800, SPARE0_on]\<rparr>)"
  using zero_frequency_start_rejected_delta_accepted
    [of healthy_bus "AD5932_Init 16000000 boot" DECREMENTAL_SWEEP]
  by (simp add: healthy_bus_def boot_def AD5932_Init_def AD5932_SetCTRLPin_def
      AD5932_SetINTPin_def AD5932_SetFSYNCPin_def AD5932_SetSTDBYPin_def call_def Let_def)

text \<open>
  C5. A transfer error inside a frequency setter is not returned. On a bus whose every
  transfer fails with \<open>-1\<close>, \<open>AD5932_SetStartFrequency\<close> compares the result of each word
  with \<open>AD5932_PORT_BUSY\<close> only, sends both words and returns 0.
\<close>

theorem start_frequency_swallows_transfer_error:
  "AD5932_SetStartFrequency faulty_bus 1000 (AD5932_Init 50000000 boot) =
     Inr (0, \<lparr>ad5932CMD = 0xD000, ad5932MCLK = 50000000,
              trace = [SPARE2_off, SPARE3_off, SPARE0_on, SPARE1_off,
                       GetTransferStatus, SPARE0_off, Transfer 0xC14F, SPARE0_on,
                       GetTransferStatus, SPARE0_off, Transfer 0xD000, SPARE0_on]\<rparr>) \<and>
   AD5932_SendSPICommand faulty_bus 0xC14F (AD5932_Init 50000000 boot) =
     (- 1, \<lparr>ad5932CMD = 0, ad5932MCLK = 50000000,
            trace = [SPARE2_off, SPARE3_off, SPARE0_on, SPARE1_off,
                     GetTransferStatus, SPARE0_off, Transfer 0xC14F, SPARE0_on]\<rparr>)"
  by (simp add: driver_defs)

section \<open>Increment interval\<close>

text \<open>
  C4. For the clock-cycle basis \<open>AD5932_SetIncrementIntervall\<close> combines the value with
  \<open>MCLK_INP_BASED\<close>, the basis flag (0), where the register code
  \<open>AD5932_TINT_MCLKCYCLES\<close> (\<open>0x6000\<close>) is meant: interval 2 goes out as \<open>0x0002\<close>, whose
  selector is \<open>0000\<close>, the control register, and not \<open>0110\<close>.
\<close>

theorem increment_interval_clock_basis_selector:
  "AD5932_SetIncrementIntervall healthy_bus 2 MCLK_INP_BASED (AD5932_Init 16000000 boot) =
     (0, \<lparr>ad5932CMD = 0x0002, ad5932MCLK = 16000000,
           trace = [SPARE2_off, SPARE3_off, SPARE0_on, SPARE1_off,
                    GetTransferStatus, SPARE0_off, Transfer 0x0002, SPARE0_on]\<rparr>) \<and>
   drop_bit 12 (0x0002 :: u16) = 0 \<and>
   AD5932_SetIncrementIntervall healthy_bus 2 WAVE_OUT_BASED (AD5932_Init 16000000 boot) =
     (0, \<lparr>ad5932CMD = 0x4002, ad5932MCLK = 16000000,
           trace = [SPARE2_off, SPARE3_off, SPARE0_on, SPARE1_off,
                    GetTransferStatus, SPARE0_off, Transfer 0x4002, SPARE0_on]\<rparr>)"
  by (simp add: driver_defs)

section \<open>Sequencer\<close>

text \<open>
  C2. The sequencer tests each step's result with \<open>ret < 0\<close>, and \<open>AD5932_PORT_BUSY\<close>
  (\<open>0xFFFF\<close>) and \<open>AD5932_PARAM_ERROR\<close> (\<open>0xFFF0\<close>) are positive. On a bus that is busy at
  every poll no step of a sweep setup sends a word, yet the sequence runs through all
  five steps, pulses CTRL and returns 0.
\<close>

theorem sweep_on_busy_bus_reports_success:
  "AD5932_SweepGenerator busy_bus 1000 1000 2 WAVE_OUT_BASED 2000 INCREMENTAL_SWEEP SINE_OUT
       MSBOUT_EN AUTOMATIC_TRIGGER SYNCSEL_END SYNCOUT_EN (AD5932_Init 16000000 boot) =
     Inr (0, \<lparr>ad5932CMD = 0x1002, ad5932MCLK = 16000000,
              trace = [SPARE2_off, SPARE3_off, SPARE0_on, SPARE1_off,
                       SPARE2_off, GetTransferStatus, GetTransferStatus, GetTransferStatus,
                       GetTransferStatus, GetTransferStatus,
                       SPARE2_on, delay_us 100, SPARE2_off]\<rparr>)"
  by (simp add: AD5932_SweepGenerator_def driver_defs)

text \<open>
  C9 (amended). With the clock at 50 MHz, on a bus that is clear at every poll and
  completes every transfer, \<open>AD5932_SingleFrequencyGenerator\<close> for 1000 Hz, sine, MSB
  output enabled and automatic trigger lowers CTRL, sends the control word \<open>0x0FFF\<close>
  (DAC, sine and MSB output enabled, sync output enabled at end of scan, and the trigger
  bit 5 set: the control register is always programmed with \<open>EXTERNAL_TRIGGER\<close>), then
  the start-frequency words \<open>0xC000 | 0x14F\<close> and \<open>0xD000 | 0x000\<close> of accumulator value
  335, then pulses CTRL: on, 100 microseconds, off.
\<close>

theorem single_frequency_1000Hz_scenario:
  assumes clear: "\<And>h. SSP_GetTransferStatus p h = SSP_STATUS_CLEAR p"
    and completes: "\<And>h w. 0 \<le> sint (SSP_Transfer p h w)"
    and clock: "ad5932MCLK s = 50000000"
  shows "AD5932_SingleFrequencyGenerator p 1000 SINE_OUT MSBOUT_EN AUTOMATIC_TRIGGER s =
           Inr (0, s\<lparr>ad5932CMD := 0xD000,
                     trace := trace s @
                       [SPARE2_off,
                        GetTransferStatus, SPARE0_off, Transfer 0x0FFF, SPARE0_on,
                        GetTransferStatus, SPARE0_off, Transfer 0xC14F, SPARE0_on,
                        GetTransferStatus, SPARE0_off, Transfer 0xD000, SPARE0_on,
                        SPARE2_on, delay_us 100, SPARE2_off]\<rparr>)"
proof -
  have ok: "sint (SSP_Transfer p h w) = 0" if "\<not> 0 < sint (SSP_Transfer p h w)" for h w
    using completes [of h w] that by simp
  have range: "(1000 :: u32) \<le> 0x7FFFFFFF" "(1000 :: u32) \<noteq> 0" by simp_all
  show ?thesis
    by (simp add: AD5932_SingleFrequencyGenerator_def AD5932_SetControlRegister_def
        SendSPICommand_clear clear SetStartFrequency_clear [OF clear range] clock ok
        AD5932_TriggerCTRLPin_def AD5932_SetCTRLPin_def call_def or_assign_def Let_def)
qed

theorem single_frequency_1000Hz_scenario_witness:
  "AD5932_SingleFrequencyGenerator healthy_bus 1000 SINE_OUT MSBOUT_EN AUTOMATIC_TRIGGER
       (AD5932_Init 50000000 boot) =
     Inr (0, (AD5932_Init 50000000 boot)\<lparr>ad5932CMD := 0xD000,
               trace := trace (AD5932_Init 50000000 boot) @
                 [SPARE2_off,
                  GetTransferStatus, SPARE0_off, Transfer 0x0FFF, SPARE0_on,
                  GetTransferStatus, SPARE0_off, Transfer 0xC14F, SPARE0_on,
                  GetTransferStatus, SPARE0_off, Transfer 0xD000, SPARE0_on,
                  SPARE2_on, delay_us 100, SPARE2_off]\<rparr>)"
proof (rule single_frequency_1000Hz_scenario)
  show "SSP_GetTransferStatus healthy_bus h = SSP_STATUS_CLEAR healthy_bus" for h
    by (simp add: healthy_bus_def)
  show "0 \<le> sint (SSP_Transfer healthy_bus h w)" for h w
    by (simp add: healthy_bus_def)
  show "ad5932MCLK (AD5932_Init 50000000 boot) = 50000000"
    by (simp add: driver_defs)
qed

text \<open>
  The words of the claim as stated are not the ones sent: bit 5 of the control word is
  set, and the low start-frequency word carries selector \<open>1100\<close>, not \<open>0010\<close>.
\<close>

theorem single_frequency_1000Hz_counterexample:
  "transferred (trace (snd (projr
      (AD5932_SingleFrequencyGenerator healthy_bus 1000 SINE_OUT MSBOUT_EN AUTOMATIC_TRIGGER
         (AD5932_Init 50000000 boot))))) = [0x0FFF, 0xC14F, 0xD000] \<and>
   bit (0x0FFF :: u16) 5 \<and>
   (0xC14F :: u16) \<noteq> 0x2000 OR 0x14F"
  by (simp add: AD5932_SingleFrequencyGenerator_def driver_defs)

section \<open>Control register\<close>

lemma bit_or_assign: "bit (or_assign t v) n \<longleftrightarrow> n < 16 \<and> (bit t n \<or> bit v n)"
  by (auto simp: or_assign_def bit_simps dest: bit_imp_le_length)

lemma bit_shifted_flag:
  fixes f :: "32 word"
  assumes "f \<in> {0, 1}"
  shows "bit (push_bit k f) n \<longleftrightarrow> f = 1 \<and> n = k \<and> k < 32"
  using assms by (auto simp: bit_simps)

lemma bit_control_word:
  assumes flags: "DAC_STATE \<in> {0, 1}" "WAVE_TYPE \<in> {0, 1}" "MBSOUT_STATE \<in> {0, 1}"
      "TRIGGER_TYPE \<in> {0, 1}" "SYNCSEL_STATE \<in> {0, 1}" "SYNCOUT_STATE \<in> {0, 1}"
  shows "bit (ad5932CMD (snd (AD5932_SetControlRegister p DAC_STATE WAVE_TYPE MBSOUT_STATE
                 TRIGGER_TYPE SYNCSEL_STATE SYNCOUT_STATE s))) n \<longleftrightarrow>
           n \<in> {0, 1, 4, 6, 7, 11} \<or> n = 2 \<and> SYNCOUT_STATE = 1 \<or> n = 3 \<and> SYNCSEL_STATE = 1 \<or>
           n = 5 \<and> TRIGGER_TYPE = 1 \<or> n = 8 \<and> MBSOUT_STATE = 1 \<or> n = 9 \<and> WAVE_TYPE = 1 \<or>
           n = 10 \<and> DAC_STATE = 1"
proof -
  have one: "(1 :: 32 word) \<in> {0, 1}" by simp
  have cast_id: "(ucast (ucast x :: 32 word) :: u16) = x" for x :: u16
    by (rule bit_word_eqI) (auto simp: bit_simps dest: bit_imp_le_length)
  have cmd: "ad5932CMD (snd (AD5932_SetControlRegister p DAC_STATE WAVE_TYPE MBSOUT_STATE
                 TRIGGER_TYPE SYNCSEL_STATE SYNCOUT_STATE s)) =
        or_assign (or_assign (or_assign (or_assign (or_assign (or_assign (or_assign (or_assign
          (or_assign (or_assign (or_assign 1 (push_bit 1 1)) (push_bit 2 SYNCOUT_STATE))
          (push_bit 3 SYNCSEL_STATE)) (push_bit 4 1)) (push_bit 5 TRIGGER_TYPE)) (push_bit 6 1))
          (push_bit 7 1)) (push_bit 8 MBSOUT_STATE)) (push_bit 9 WAVE_TYPE))
          (push_bit 10 DAC_STATE)) (push_bit 11 1)"
    unfolding AD5932_SetControlRegister_def Let_def SendSPICommand_ad5932CMD
    by (simp add: cast_id)
  have "bit (ad5932CMD (snd (AD5932_SetControlRegister p DAC_STATE WAVE_TYPE MBSOUT_STATE
                 TRIGGER_TYPE SYNCSEL_STATE SYNCOUT_STATE s))) n \<longleftrightarrow>
        n < 16 \<and> (n = 0 \<or> n = 1 \<or> SYNCOUT_STATE = 1 \<and> n = 2 \<or> SYNCSEL_STATE = 1 \<and> n = 3 \<or>
          n = 4 \<or> TRIGGER_TYPE = 1 \<and> n = 5 \<or> n = 6 \<or> n = 7 \<or> MBSOUT_STATE = 1 \<and> n = 8 \<or>
          WAVE_TYPE = 1 \<and> n = 9 \<or> DAC_STATE = 1 \<and> n = 10 \<or> n = 11)"
    unfolding cmd
    apply (simp only: bit_or_assign bit_shifted_flag [OF one] bit_shifted_flag [OF flags(1)]
        bit_shifted_flag [OF flags(2)] bit_shifted_flag [OF flags(3)]
        bit_shifted_flag [OF flags(4)] bit_shifted_flag [OF flags(5)]
        bit_shifted_flag [OF flags(6)] bit_1_iff)
    apply simp
    apply blast
    done
  then show ?thesis by auto
qed

lemma SetControlRegister_transferred:
  assumes "SSP_GetTransferStatus p (trace s) = SSP_STATUS_CLEAR p"
  shows "transferred (trace (snd (AD5932_SetControlRegister p DAC_STATE WAVE_TYPE MBSOUT_STATE
                 TRIGGER_TYPE SYNCSEL_STATE SYNCOUT_STATE s))) =
         transferred (trace s) @
           [ad5932CMD (snd (AD5932_SetControlRegister p DAC_STATE WAVE_TYPE MBSOUT_STATE
                 TRIGGER_TYPE SYNCSEL_STATE SYNCOUT_STATE s))]"
  using assms
  by (simp add: AD5932_SetControlRegister_def SendSPICommand_clear Let_def transferred_append)

text \<open>
  C6. For every combination of the six flags (each 0 or 1), on a clear bus, the
  control-register operation transfers exactly one word, the one it leaves in
  \<open>ad5932CMD\<close>. Its selector is \<open>0000\<close>; bits 0, 1, 4, 6, 7 and 11 of its payload are
  set, bit 2 is the sync-output enable, bit 3 the sync select, bit 5 the trigger type,
  bit 8 the MSB-output enable, bit 9 the waveform and bit 10 the DAC enable. The word
  depends on the flags alone: the same flags give it on any platform and in any state.
\<close>

theorem control_register_word:
  assumes flags: "DAC_STATE \<in> {DAC_DISABLE, DAC_EN}" "WAVE_TYPE \<in> {TRIANGLE_OUT, SINE_OUT}"
      "MBSOUT_STATE \<in> {MSBOUT_DISABLE, MSBOUT_EN}"
      "TRIGGER_TYPE \<in> {AUTOMATIC_TRIGGER, EXTERNAL_TRIGGER}"
      "SYNCSEL_STATE \<in> {SYNCSEL_SUBSEQVENT, SYNCSEL_END}"
      "SYNCOUT_STATE \<in> {SYNCOUT_DISABLE, SYNCOUT_EN}"
    and clear: "SSP_GetTransferStatus p (trace s) = SSP_STATUS_CLEAR p"
    and w: "w = ad5932CMD (snd (AD5932_SetControlRegister p DAC_STATE WAVE_TYPE MBSOUT_STATE
                 TRIGGER_TYPE SYNCSEL_STATE SYNCOUT_STATE s))"
  shows "transferred (trace (snd (AD5932_SetControlRegister p DAC_STATE WAVE_TYPE MBSOUT_STATE
                 TRIGGER_TYPE SYNCSEL_STATE SYNCOUT_STATE s))) = transferred (trace s) @ [w] \<and>
         drop_bit 12 w = 0 \<and>
         bit w 0 \<and> bit w 1 \<and> (bit w 2 \<longleftrightarrow> SYNCOUT_STATE = SYNCOUT_EN) \<and>
         (bit w 3 \<longleftrightarrow> SYNCSEL_STATE = SYNCSEL_END) \<and> bit w 4 \<and>
         (bit w 5 \<longleftrightarrow> TRIGGER_TYPE = EXTERNAL_TRIGGER) \<and> bit w 6 \<and> bit w 7 \<and>
         (bit w 8 \<longleftrightarrow> MBSOUT_STATE = MSBOUT_EN) \<and> (bit w 9 \<longleftrightarrow> WAVE_TYPE = SINE_OUT) \<and>
         (bit w 10 \<longleftrightarrow> DAC_STATE = DAC_EN) \<and> bit w 11 \<and>
         ad5932CMD (snd (AD5932_SetControlRegister p' DAC_STATE WAVE_TYPE MBSOUT_STATE
                 TRIGGER_TYPE SYNCSEL_STATE SYNCOUT_STATE s')) = w"
proof -
  have f: "DAC_STATE \<in> {0, 1}" "WAVE_TYPE \<in> {0, 1}" "MBSOUT_STATE \<in> {0, 1}"
      "TRIGGER_TYPE \<in> {0, 1}" "SYNCSEL_STATE \<in> {0, 1}" "SYNCOUT_STATE \<in> {0, 1}"
    using flags by auto
  note bits = bit_control_word [OF f]
  have sent: "transferred (trace (snd (AD5932_SetControlRegister p DAC_STATE WAVE_TYPE
                 MBSOUT_STATE TRIGGER_TYPE SYNCSEL_STATE SYNCOUT_STATE s)))
               = transferred (trace s) @ [w]"
    unfolding w by (rule SetControlRegister_transferred [OF clear])
  have sel: "drop_bit 12 w = 0"
    unfolding w by (rule bit_word_eqI) (simp add: bit_drop_bit_eq bits)
  have same: "ad5932CMD (snd (AD5932_SetControlRegister p' DAC_STATE WAVE_TYPE MBSOUT_STATE
                 TRIGGER_TYPE SYNCSEL_STATE SYNCOUT_STATE s')) = w"
    unfolding w by (rule bit_word_eqI) (simp only: bits)
  have payload: "bit w 0" "bit w 1" "bit w 2 \<longleftrightarrow> SYNCOUT_STATE = SYNCOUT_EN"
      "bit w 3 \<longleftrightarrow> SYNCSEL_STATE = SYNCSEL_END" "bit w 4"
      "bit w 5 \<longleftrightarrow> TRIGGER_TYPE = EXTERNAL_TRIGGER" "bit w 6" "bit w 7"
      "bit w 8 \<longleftrightarrow> MBSOUT_STATE = MSBOUT_EN" "bit w 9 \<longleftrightarrow> WAVE_TYPE = SINE_OUT"
      "bit w 10 \<longleftrightarrow> DAC_STATE = DAC_EN" "bit w 11"
    unfolding w by (simp_all add: bits)
  from sent sel payload same show ?thesis by simp
qed

theorem control_register_word_witness:
  "transferred (trace (snd (AD5932_SetControlRegister healthy_bus DAC_EN SINE_OUT MSBOUT_EN
       AUTOMATIC_TRIGGER SYNCSEL_END SYNCOUT_EN (AD5932_Init 16000000 boot)))) = [0x0FDF] \<and>
   drop_bit 12 (0x0FDF :: u16) = 0 \<and> bit (0x0FDF :: u16) 10 \<and> \<not> bit (0x0FDF :: u16) 5 \<and>
   ad5932CMD (snd (AD5932_SetControlRegister busy_bus DAC_EN SINE_OUT MSBOUT_EN
       AUTOMATIC_TRIGGER SYNCSEL_END SYNCOUT_EN boot)) = 0x0FDF"
  using control_register_word [where p = healthy_bus and s = "AD5932_Init 16000000 boot"
      and w = "0x0FDF" and p' = busy_bus and s' = boot and DAC_STATE = DAC_EN
      and WAVE_TYPE = SINE_OUT and MBSOUT_STATE = MSBOUT_EN
      and TRIGGER_TYPE = AUTOMATIC_TRIGGER and SYNCSEL_STATE = SYNCSEL_END
      and SYNCOUT_STATE = SYNCOUT_EN]
  by (simp add: driver_defs)

section \<open>Sweep direction\<close>

lemma bit_or_assign_11: "bit (or_assign h (push_bit 11 1)) n \<longleftrightarrow> bit h n \<or> n = 11"
  by (auto simp add: bit_or_assign bit_shifted_flag simp del: push_bit_of_1
      dest: bit_imp_le_length)

lemma drop_bit_or_assign_11: "drop_bit 12 (or_assign h (push_bit 11 1)) = drop_bit 12 h"
  by (rule bit_word_eqI) (simp add: bit_drop_bit_eq bit_or_assign_11 del: push_bit_of_1)

lemma bit_11_DFREQ_HI:
  fixes x :: "32 word"
  shows "bit ((ucast (0x3000 OR (drop_bit 12 x AND 0xFFF)) :: u16) AND 0xFFF) 11 \<longleftrightarrow> bit x 23"
  by (simp only: payload_words) (simp add: bit_simps)

lemma not_bit_23:
  fixes x :: "32 word"
  assumes "unat x < 2 ^ 23"
  shows "\<not> bit x 23"
proof
  assume "bit x 23"
  then have "bit (unat x) 23" by (simp add: bit_unsigned_iff)
  then have "odd (unat x div 2 ^ 23)" by (simp add: bit_iff_odd)
  with assms show False by simp
qed

lemma accumulator_below_half:
  fixes v m :: u32
  assumes "2 * unat v < unat m"
  shows "unat (ucast ((ucast v :: u64) * 0x1000000 div ucast m) :: u32) < 2 ^ 23"
proof -
  have "unat v < unat m" using assms by simp
  then have "v < m" by (simp add: word_less_nat_alt)
  then have eq: "unat (ucast ((ucast v :: u64) * 0x1000000 div ucast m) :: u32)
                   = unat v * 2 ^ 24 div unat m"
    by (rule accumulator_tmp(1))
  have "unat v * 2 ^ 24 = (2 * unat v) * 2 ^ 23" by simp
  also have "\<dots> < unat m * 2 ^ 23" using assms by simp
  finally have "unat v * 2 ^ 24 div unat m < 2 ^ 23"
    by (simp add: less_mult_imp_div_less mult.commute)
  with eq show ?thesis by simp
qed

lemma bit_23_accumulator:
  fixes v m :: u32
  shows "bit (ucast ((ucast v :: u64) * 0x1000000 div ucast m) :: u32) 23
           \<longleftrightarrow> bit (unat v * 2 ^ 24 div unat m) 23"
proof -
  have "bit (ucast ((ucast v :: u64) * 0x1000000 div ucast m) :: u32) 23
          \<longleftrightarrow> bit ((ucast v :: u64) * 0x1000000 div ucast m) 23"
    by (simp add: bit_ucast_iff)
  also have "\<dots> \<longleftrightarrow> bit (unat ((ucast v :: u64) * 0x1000000 div ucast m)) 23"
    by (simp add: bit_unsigned_iff)
  finally show ?thesis by (simp only: accumulator_unat)
qed

text \<open>
  C7 (amended). For every delta frequency up to \<open>2^31 - 1\<close>, on a clear bus with the
  clock configured, the delta-frequency operation transfers a LOW and a HIGH word. For a
  decrementing sweep bit 11 of the HIGH word's 12-bit payload is set. For an incrementing
  sweep that bit is bit 23 of the accumulator value \<open>floor (f * 2^24 / mclk)\<close>: it is
  clear when the frequency is below half the clock.
\<close>

theorem delta_frequency_direction_bit:
  assumes clear: "\<And>h. SSP_GetTransferStatus p h = SSP_STATUS_CLEAR p"
    and range: "v \<le> 0x7FFFFFFF" and clock: "ad5932MCLK s \<noteq> 0"
  shows "\<exists>lo hi s'. AD5932_SetDeltaFrequency p v t s = Inr (0, s') \<and>
           transferred (trace s') = transferred (trace s) @ [lo, hi] \<and>
           drop_bit 12 lo = 0x2 \<and> drop_bit 12 hi = 0x3 \<and>
           (t = DECREMENTAL_SWEEP \<longrightarrow> bit (hi AND 0xFFF) 11) \<and>
           (t = INCREMENTAL_SWEEP \<longrightarrow>
              (bit (hi AND 0xFFF) 11 \<longleftrightarrow> bit (unat v * 2 ^ 24 div unat (ad5932MCLK s)) 23)) \<and>
           (t = INCREMENTAL_SWEEP \<and> 2 * unat v < unat (ad5932MCLK s) \<longrightarrow>
              \<not> bit (hi AND 0xFFF) 11)"
proof -
  define tmp :: u32 where "tmp = ucast ((ucast v :: u64) * 0x1000000 div ucast (ad5932MCLK s))"
  define lo :: u16 where "lo = ucast (0x2000 OR (tmp AND 0xFFF))"
  define hi0 :: u16 where "hi0 = ucast (0x3000 OR (drop_bit 12 tmp AND 0xFFF))"
  define hi :: u16 where
    "hi = (if t = DECREMENTAL_SWEEP then or_assign hi0 (push_bit 11 1) else hi0)"
  have run: "AD5932_SetDeltaFrequency p v t s =
      Inr (0, s\<lparr>ad5932CMD := hi, trace := trace s @
                   [GetTransferStatus, SPARE0_off, Transfer lo, SPARE0_on,
                    GetTransferStatus, SPARE0_off, Transfer hi, SPARE0_on]\<rparr>)"
    using SetDeltaFrequency_clear [OF clear range clock, of t]
    by (simp add: Let_def tmp_def lo_def hi0_def hi_def del: push_bit_of_1)
  have sent: "transferred (trace (s\<lparr>ad5932CMD := hi, trace := trace s @
                   [GetTransferStatus, SPARE0_off, Transfer lo, SPARE0_on,
                    GetTransferStatus, SPARE0_off, Transfer hi, SPARE0_on]\<rparr>))
                 = transferred (trace s) @ [lo, hi]"
    by (simp add: transferred_append)
  have sel: "drop_bit 12 lo = 0x2" "drop_bit 12 hi = 0x3"
    by (simp_all only: lo_def hi0_def hi_def selector_words drop_bit_or_assign_11 if_distrib
        if_cancel)
  have dec: "bit (hi AND 0xFFF) 11" if "t = DECREMENTAL_SWEEP"
    using that by (simp add: hi_def bit_and_iff bit_or_assign_11 del: push_bit_of_1)
  have inc: "bit (hi AND 0xFFF) 11 \<longleftrightarrow> bit (unat v * 2 ^ 24 div unat (ad5932MCLK s)) 23"
    if "t = INCREMENTAL_SWEEP"
  proof -
    have "hi = hi0" using that by (simp add: hi_def)
    then have "bit (hi AND 0xFFF) 11 \<longleftrightarrow> bit tmp 23"
      by (simp only: hi0_def bit_11_DFREQ_HI)
    then show ?thesis
      unfolding tmp_def by (simp only: bit_23_accumulator)
  qed
  have low: "\<not> bit (hi AND 0xFFF) 11"
    if "t = INCREMENTAL_SWEEP \<and> 2 * unat v < unat (ad5932MCLK s)"
  proof -
    from that have "2 * unat v < unat (ad5932MCLK s)" by simp
    then have "unat tmp < 2 ^ 23"
      unfolding tmp_def by (rule accumulator_below_half)
    then have "\<not> bit tmp 23" by (rule not_bit_23)
    moreover have "hi = hi0" using that by (simp add: hi_def)
    ultimately show ?thesis
      by (simp only: hi0_def bit_11_DFREQ_HI not_False_eq_True)
  qed
  from run sent sel dec inc low show ?thesis by blast
qed

text \<open>
  Three runs at a 16 MHz clock: 1000 Hz decrementing (bit 11 set), 1000 Hz incrementing
  (accumulator value 1048, bit 11 clear) and 12 MHz incrementing (accumulator value
  \<open>3 * 2^22\<close>, whose bit 23 is set, and so is bit 11).
\<close>

theorem delta_frequency_direction_bit_witness:
  "(\<exists>lo hi s'. AD5932_SetDeltaFrequency healthy_bus 1000 DECREMENTAL_SWEEP
                  (AD5932_Init 16000000 boot) = Inr (0, s') \<and>
      transferred (trace s') = [lo, hi] \<and> bit (hi AND 0xFFF) 11) \<and>
   (\<exists>lo hi s'. AD5932_SetDeltaFrequency healthy_bus 1000 INCREMENTAL_SWEEP
                  (AD5932_Init 16000000 boot) = Inr (0, s') \<and>
      transferred (trace s') = [lo, hi] \<and> \<not> bit (hi AND 0xFFF) 11) \<and>
   (\<exists>lo hi s'. AD5932_SetDeltaFrequency healthy_bus 12000000 INCREMENTAL_SWEEP
                  (AD5932_Init 16000000 boot) = Inr (0, s') \<and>
      transferred (trace s') = [lo, hi] \<and> bit (hi AND 0xFFF) 11)"
proof -
  have clear: "SSP_GetTransferStatus healthy_bus h = SSP_STATUS_CLEAR healthy_bus" for h
    by (simp add: healthy_bus_def)
  have clock: "ad5932MCLK (AD5932_Init 16000000 boot) \<noteq> 0"
    and mclk: "unat (ad5932MCLK (AD5932_Init 16000000 boot)) = 16000000"
    and start: "transferred (trace (AD5932_Init 16000000 boot)) = []"
    by (simp_all add: driver_defs)
  have r1: "(1000 :: u32) \<le> 0x7FFFFFFF" and r2: "(12000000 :: u32) \<le> 0x7FFFFFFF"
    by simp_all
  have b: "bit (12000000 * 2 ^ 24 div 16000000 :: nat) 23"
    by (simp add: bit_iff_odd)
  from delta_frequency_direction_bit [OF clear r1 clock, of DECREMENTAL_SWEEP]
  have dec: "\<exists>lo hi s'. AD5932_SetDeltaFrequency healthy_bus 1000 DECREMENTAL_SWEEP
                  (AD5932_Init 16000000 boot) = Inr (0, s') \<and>
      transferred (trace s') = [lo, hi] \<and> bit (hi AND 0xFFF) 11"
    unfolding start by auto
  from delta_frequency_direction_bit [OF clear r1 clock, of INCREMENTAL_SWEEP]
  have inc: "\<exists>lo hi s'. AD5932_SetDeltaFrequency healthy_bus 1000 INCREMENTAL_SWEEP
                  (AD5932_Init 16000000 boot) = Inr (0, s') \<and>
      transferred (trace s') = [lo, hi] \<and> \<not> bit (hi AND 0xFFF) 11"
    unfolding start mclk by auto
  from delta_frequency_direction_bit [OF clear r2 clock, of INCREMENTAL_SWEEP]
  have high: "\<exists>lo hi s'. AD5932_SetDeltaFrequency healthy_bus 12000000 INCREMENTAL_SWEEP
                  (AD5932_Init 16000000 boot) = Inr (0, s') \<and>
      transferred (trace s') = [lo, hi] \<and> bit (hi AND 0xFFF) 11"
    unfolding start mclk using b by auto
  from dec inc high show ?thesis by blast
qed

text \<open>
  The incrementing half of the claim as stated fails from half the clock on: 8 MHz at a
  16 MHz clock has accumulator value \<open>2^23\<close>, and bit 11 of the HIGH payload is set.
\<close>

theorem delta_frequency_direction_bit_counterexample:
  "AD5932_SetDeltaFrequency healthy_bus 8000000 INCREMENTAL_SWEEP (AD5932_Init 16000000 boot) =
     Inr (0, \<lparr>ad5932CMD = 0x3800, ad5932MCLK = 16000000,
              trace = [SPARE2_off, SPARE3_off, SPARE0_on, SPARE1_off,
                       GetTransferStatus, SPARE0_off, Transfer 0x2000, SPARE0_on,
                       GetTransferStatus, SPARE0_off, Transfer 0x3800, SPARE0_on]\<rparr>) \<and>
   bit ((0x3800 :: u16) AND 0xFFF) 11 \<and> (8000000 :: u32) \<le> 0x7FFFFFFF"
  by (simp add: driver_defs)

section \<open>Sweep setup: each parameter is checked in its own step\<close>

lemma transferred_TriggerCTRLPin [simp]:
  "transferred (trace (AD5932_TriggerCTRLPin s)) = transferred (trace s)"
  by (simp add: AD5932_TriggerCTRLPin_def AD5932_SetCTRLPin_def call_def Let_def
      transferred_append)

lemma transferred_SetCTRLPin [simp]:
  "transferred (trace (AD5932_SetCTRLPin b s)) = transferred (trace s)"
  by (simp add: AD5932_SetCTRLPin_def call_def transferred_append)

lemma ad5932MCLK_SetCTRLPin [simp]: "ad5932MCLK (AD5932_SetCTRLPin b s) = ad5932MCLK s"
  by (simp add: AD5932_SetCTRLPin_def call_def)

lemma ucast_payload:
  fixes v :: u16
  assumes "v \<le> 4095"
  shows "(ucast v :: 32 word) = ucast v AND mask 12"
proof -
  have "unat v < 2 ^ 12" using assms by (simp add: word_le_nat_alt)
  moreover have "unat (ucast v :: 32 word) = unat v"
  proof -
    have "unat v < 2 ^ 16" using unsigned_less [of v] by simp
    then have "unat v < 2 ^ 32" by simp
    then show ?thesis by (simp add: unsigned_ucast_eq take_bit_nat_eq_self)
  qed
  ultimately have "(ucast v :: 32 word) < 2 ^ 12" by (simp add: word_less_nat_alt)
  then show ?thesis by (simp only: less_mask_eq)
qed

lemma selector_NINCR:
  fixes v :: u16
  assumes "v \<le> 4095"
  shows "drop_bit 12 (ucast (0x1000 OR (ucast v :: 32 word)) :: u16) = 1"
proof -
  have v: "(ucast v :: 32 word) = ucast v AND mask 12"
    using assms by (rule ucast_payload)
  have "drop_bit 12 (ucast (push_bit 12 1 OR ((ucast v :: 32 word) AND mask 12)) :: u16) = 1"
    by (simp only: command_selector) simp
  then show ?thesis using v by simp
qed

lemma selector_TINT_WCYCLES:
  fixes v :: u16
  assumes "v \<le> 2047"
  shows "drop_bit 12 (ucast (0x4000 OR (ucast v :: 32 word)) :: u16) = 4"
proof -
  have "v \<le> 4095" using assms by (simp add: word_le_nat_alt)
  then have v: "(ucast v :: 32 word) = ucast v AND mask 12"
    by (rule ucast_payload)
  have "drop_bit 12 (ucast (push_bit 12 4 OR ((ucast v :: 32 word) AND mask 12)) :: u16) = 4"
    by (simp only: command_selector) simp
  then show ?thesis using v by simp
qed

lemma SendSPICommand_extends:
  assumes "AD5932_SendSPICommand p w s = (r, s')"
  shows "ad5932MCLK s' = ad5932MCLK s"
    and "\<exists>ext. trace s' = trace s @ ext \<and> set (transferred ext) \<subseteq> {w}"
proof -
  show "ad5932MCLK s' = ad5932MCLK s"
    using assms
    by (auto simp: AD5932_SendSPICommand_def AD5932_SetFSYNCPin_def call_def Let_def
        split: if_splits)
  show "\<exists>ext. trace s' = trace s @ ext \<and> set (transferred ext) \<subseteq> {w}"
  proof (cases "SSP_GetTransferStatus p (trace s) = SSP_STATUS_CLEAR p")
    case True
    from SendSPICommand_clear [OF True, of w] assms
    have "trace s' = trace s @ [GetTransferStatus, SPARE0_off, Transfer w, SPARE0_on]"
      by (auto simp: Let_def)
    moreover have "set (transferred [GetTransferStatus, SPARE0_off, Transfer w, SPARE0_on])
                     \<subseteq> {w}" by simp
    ultimately show ?thesis by blast
  next
    case False
    from SendSPICommand_busy [OF False, of w] assms
    have "trace s' = trace s @ [GetTransferStatus]" by auto
    moreover have "set (transferred [GetTransferStatus]) \<subseteq> {w}" by simp
    ultimately show ?thesis by blast
  qed
qed

lemma SetStartFrequency_extends:
  assumes run: "AD5932_SetStartFrequency p v s = Inr (r, s')"
  shows "ad5932MCLK s' = ad5932MCLK s \<and>
         (\<exists>ext. trace s' = trace s @ ext \<and>
            (\<forall>w\<in>set (transferred ext). drop_bit 12 w \<in> {0xC, 0xD}) \<and>
            (v < 1 \<or> 0x7FFFFFFF < v \<longrightarrow> ext = []))"
proof (cases "0x7FFFFFFF < v \<or> v < 1")
  case True
  then have "AD5932_SetStartFrequency p v s = Inr (AD5932_PARAM_ERROR, s)"
    unfolding AD5932_SetStartFrequency_def by (simp only: if_True)
  with run have "s' = s" by simp
  then show ?thesis by simp
next
  case False
  let ?tmp = "ucast ((ucast v :: u64) * 0x1000000 div ucast (ad5932MCLK s)) :: u32"
  let ?lo = "ucast (0xC000 OR (?tmp AND 0xFFF)) :: u16"
  let ?hi = "ucast (0xD000 OR (drop_bit 12 ?tmp AND 0xFFF)) :: u16"
  obtain r1 t1 where a: "AD5932_SendSPICommand p ?lo (s\<lparr>ad5932CMD := ?lo\<rparr>) = (r1, t1)"
    by force
  obtain r2 t2 where b: "AD5932_SendSPICommand p ?hi (t1\<lparr>ad5932CMD := ?hi\<rparr>) = (r2, t2)"
    by force
  from SendSPICommand_extends [OF a] obtain e1 where e1: "ad5932MCLK t1 = ad5932MCLK s"
      "trace t1 = trace s @ e1" "set (transferred e1) \<subseteq> {?lo}"
    by auto
  from SendSPICommand_extends [OF b] obtain e2 where e2: "ad5932MCLK t2 = ad5932MCLK s"
      "trace t2 = trace s @ e1 @ e2" "set (transferred e2) \<subseteq> {?hi}"
    using e1 by auto
  have "s' = t1 \<or> s' = t2"
    using run False a b
    by (auto simp: AD5932_SetStartFrequency_def Let_def split: if_splits)
  moreover have "\<forall>w\<in>set (transferred e1). drop_bit 12 w \<in> {0xC, 0xD}"
    using e1(3) selector_words(1) [of ?tmp] by auto
  moreover have "\<forall>w\<in>set (transferred (e1 @ e2)). drop_bit 12 w \<in> {0xC, 0xD}"
    using e1(3) e2(3) selector_words(1) [of ?tmp] selector_words(2) [of "drop_bit 12 ?tmp"]
    by (auto simp: transferred_append)
  ultimately show ?thesis
    using False e1(1,2) e2(1,2) by (auto simp: not_less)
qed
lemma SetDeltaFrequency_extends:
  assumes run: "AD5932_SetDeltaFrequency p v t s = Inr (r, s')"
  shows "ad5932MCLK s' = ad5932MCLK s \<and>
         (\<exists>ext. trace s' = trace s @ ext \<and>
            (\<forall>w\<in>set (transferred ext). drop_bit 12 w \<in> {0x2, 0x3}) \<and>
            (0x7FFFFFFF < v \<longrightarrow> ext = []))"
proof (cases "0x7FFFFFFF < v")
  case True
  then have "AD5932_SetDeltaFrequency p v t s = Inr (AD5932_PARAM_ERROR, s)"
    unfolding AD5932_SetDeltaFrequency_def by (simp only: if_True)
  with run have "s' = s" by simp
  then show ?thesis by simp
next
  case False
  let ?tmp = "ucast ((ucast v :: u64) * 0x1000000 div ucast (ad5932MCLK s)) :: u32"
  let ?lo = "ucast (0x2000 OR (?tmp AND 0xFFF)) :: u16"
  let ?hi0 = "ucast (0x3000 OR (drop_bit 12 ?tmp AND 0xFFF)) :: u16"
  let ?hi = "if t = DECREMENTAL_SWEEP then or_assign ?hi0 (push_bit 11 1) else ?hi0"
  obtain r1 t1 where a: "AD5932_SendSPICommand p ?lo (s\<lparr>ad5932CMD := ?lo\<rparr>) = (r1, t1)"
    by force
  obtain r2 t2 where b: "AD5932_SendSPICommand p ?hi (t1\<lparr>ad5932CMD := ?hi\<rparr>) = (r2, t2)"
    by force
  from SendSPICommand_extends [OF a] obtain e1 where e1: "ad5932MCLK t1 = ad5932MCLK s"
      "trace t1 = trace s @ e1" "set (transferred e1) \<subseteq> {?lo}"
    by auto
  from SendSPICommand_extends [OF b] obtain e2 where e2: "ad5932MCLK t2 = ad5932MCLK s"
      "trace t2 = trace s @ e1 @ e2" "set (transferred e2) \<subseteq> {?hi}"
    using e1 by auto
  have "s' = t1 \<or> s' = t2"
    using run False a b
    by (auto simp: AD5932_SetDeltaFrequency_def Let_def split: if_splits
        simp del: push_bit_of_1)
  moreover have hi: "drop_bit 12 ?hi = 0x3"
    by (simp only: selector_words drop_bit_or_assign_11 if_distrib if_cancel)
  have "\<forall>w\<in>set (transferred e1). drop_bit 12 w \<in> {0x2, 0x3}"
    using e1(3) selector_words(3) [of ?tmp] by auto
  moreover have "\<forall>w\<in>set (transferred (e1 @ e2)). drop_bit 12 w \<in> {0x2, 0x3}"
    using e1(3) e2(3) selector_words(3) [of ?tmp] hi
    by (auto simp: transferred_append simp del: push_bit_of_1)
  ultimately show ?thesis
    using False e1(1,2) e2(1,2) by auto
qed

lemma selector_clock_basis:
  fixes v :: u16
  assumes "v \<le> 2047"
  shows "drop_bit 12 (ucast (MCLK_INP_BASED OR (ucast v :: 32 word)) :: u16) = 0"
proof -
  have "v \<le> 4095" using assms by (simp add: word_le_nat_alt)
  then have v: "(ucast v :: 32 word) = ucast v AND mask 12"
    by (rule ucast_payload)
  have "drop_bit 12 (ucast (push_bit 12 0 OR ((ucast v :: 32 word) AND mask 12)) :: u16) = 0"
    by (simp only: command_selector) simp
  then show ?thesis using v by simp
qed

lemma SetIncrementIntervall_extends:
  assumes run: "AD5932_SetIncrementIntervall p v b s = (r, s')"
  shows "ad5932MCLK s' = ad5932MCLK s \<and>
         (\<exists>ext. trace s' = trace s @ ext \<and>
            (\<forall>w\<in>set (transferred ext). drop_bit 12 w \<in> {0x4, 0x0}) \<and>
            (v < 2 \<or> 2047 < v \<longrightarrow> ext = []))"
proof (cases "2047 < v \<or> v < 2")
  case True
  then have "AD5932_SetIncrementIntervall p v b s = (AD5932_PARAM_ERROR, s)"
    unfolding AD5932_SetIncrementIntervall_def by (simp only: if_True)
  with run have "s' = s" by simp
  then show ?thesis by simp
next
  case False
  then have v: "v \<le> 2047" by (simp add: not_less)
  let ?w = "if b = WAVE_OUT_BASED then ucast (AD5932_TINT_WCYCLES OR (ucast v :: 32 word))
            else (ucast (MCLK_INP_BASED OR (ucast v :: 32 word)) :: u16)"
  have "AD5932_SetIncrementIntervall p v b s = AD5932_SendSPICommand p ?w (s\<lparr>ad5932CMD := ?w\<rparr>)"
    using False by (simp add: AD5932_SetIncrementIntervall_def Let_def)
  with run have a: "AD5932_SendSPICommand p ?w (s\<lparr>ad5932CMD := ?w\<rparr>) = (r, s')" by simp
  from SendSPICommand_extends [OF a] obtain e where e: "ad5932MCLK s' = ad5932MCLK s"
      "trace s' = trace s @ e" "set (transferred e) \<subseteq> {?w}"
    by auto
  have "drop_bit 12 ?w \<in> {0x4, 0x0}"
    using selector_TINT_WCYCLES [OF v] selector_clock_basis [OF v] by simp
  with e False show ?thesis by auto
qed

lemma SetIncrement_extends:
  assumes run: "AD5932_SetIncrement p v s = (r, s')"
  shows "ad5932MCLK s' = ad5932MCLK s \<and>
         (\<exists>ext. trace s' = trace s @ ext \<and>
            (\<forall>w\<in>set (transferred ext). drop_bit 12 w = 0x1) \<and>
            (v < 2 \<or> 4095 < v \<longrightarrow> ext = []))"
proof (cases "4095 < v \<or> v < 2")
  case True
  then have "AD5932_SetIncrement p v s = (AD5932_PARAM_ERROR, s)"
    unfolding AD5932_SetIncrement_def by (simp only: if_True)
  with run have "s' = s" by simp
  then show ?thesis by simp
next
  case False
  then have v: "v \<le> 4095" by (simp add: not_less)
  let ?w = "ucast (AD5932_NINCR OR (ucast v :: 32 word)) :: u16"
  have "AD5932_SetIncrement p v s = AD5932_SendSPICommand p ?w (s\<lparr>ad5932CMD := ?w\<rparr>)"
    using False by (simp add: AD5932_SetIncrement_def Let_def)
  with run have a: "AD5932_SendSPICommand p ?w (s\<lparr>ad5932CMD := ?w\<rparr>) = (r, s')" by simp
  from SendSPICommand_extends [OF a] obtain e where e: "ad5932MCLK s' = ad5932MCLK s"
      "trace s' = trace s @ e" "set (transferred e) \<subseteq> {?w}"
    by auto
  have "drop_bit 12 ?w = 0x1"
    using selector_NINCR [OF v] by simp
  with e False show ?thesis by auto
qed

lemma SetControlRegister_extends:
  assumes flags: "DAC_STATE \<in> {0, 1}" "WAVE_TYPE \<in> {0, 1}" "MBSOUT_STATE \<in> {0, 1}"
      "TRIGGER_TYPE \<in> {0, 1}" "SYNCSEL_STATE \<in> {0, 1}" "SYNCOUT_STATE \<in> {0, 1}"
    and run: "AD5932_SetControlRegister p DAC_STATE WAVE_TYPE MBSOUT_STATE TRIGGER_TYPE
                SYNCSEL_STATE SYNCOUT_STATE s = (r, s')"
  shows "ad5932MCLK s' = ad5932MCLK s \<and>
         (\<exists>ext. trace s' = trace s @ ext \<and>
            (\<forall>w\<in>set (transferred ext). drop_bit 12 w = 0x0) \<and>
            (SSP_GetTransferStatus p (trace s) = SSP_STATUS_CLEAR p \<longrightarrow>
               ext = [GetTransferStatus, SPARE0_off, Transfer (ad5932CMD s'), SPARE0_on]))"
proof -
  let ?w = "ad5932CMD (snd (AD5932_SetControlRegister p DAC_STATE WAVE_TYPE MBSOUT_STATE
                 TRIGGER_TYPE SYNCSEL_STATE SYNCOUT_STATE s))"
  have w: "ad5932CMD s' = ?w" using run by simp
  have eq: "AD5932_SetControlRegister p DAC_STATE WAVE_TYPE MBSOUT_STATE TRIGGER_TYPE
          SYNCSEL_STATE SYNCOUT_STATE s = AD5932_SendSPICommand p ?w (s\<lparr>ad5932CMD := ?w\<rparr>)"
    by (simp add: AD5932_SetControlRegister_def Let_def SendSPICommand_ad5932CMD)
  from eq [symmetric] run
  have a: "AD5932_SendSPICommand p ?w (s\<lparr>ad5932CMD := ?w\<rparr>) = (r, s')" by (rule trans)
  from SendSPICommand_extends [OF a] obtain e where e: "ad5932MCLK s' = ad5932MCLK s"
      "trace s' = trace s @ e" "set (transferred e) \<subseteq> {?w}"
    by auto
  have sel: "drop_bit 12 ?w = 0"
    by (rule bit_word_eqI) (simp add: bit_drop_bit_eq bit_control_word [OF flags])
  have first: "e = [GetTransferStatus, SPARE0_off, Transfer (ad5932CMD s'), SPARE0_on]"
    if "SSP_GetTransferStatus p (trace s) = SSP_STATUS_CLEAR p"
  proof -
    have "SSP_GetTransferStatus p (trace (s\<lparr>ad5932CMD := ?w\<rparr>)) = SSP_STATUS_CLEAR p"
      using that by simp
    from SendSPICommand_clear [OF this, of ?w] a e(2) show ?thesis
      by (auto simp: Let_def w)
  qed
  from e sel first show ?thesis by auto
qed

lemma SetStartFrequency_returns:
  assumes "ad5932MCLK s \<noteq> 0"
  shows "\<exists>r s'. AD5932_SetStartFrequency p v s = Inr (r, s')"
  using assms by (simp add: AD5932_SetStartFrequency_def Let_def split_beta)

lemma SetDeltaFrequency_returns:
  assumes "ad5932MCLK s \<noteq> 0"
  shows "\<exists>r s'. AD5932_SetDeltaFrequency p v t s = Inr (r, s')"
  using assms by (simp add: AD5932_SetDeltaFrequency_def Let_def split_beta)
text \<open>
  C3 (amended). A sweep setup does not validate its parameters ahead of its bus writes;
  each parameter is checked inside its own step, on the value the setter of that step
  receives: the start and delta frequency as given, the low 16 bits of the increment
  interval and of the increment count. When that value is out of range (start frequency 0
  or above \<open>2^31 - 1\<close>, delta frequency above \<open>2^31 - 1\<close>, interval outside \<open>[2, 2047]\<close>,
  count outside \<open>[2, 4095]\<close>) the setter returns \<open>AD5932_PARAM_ERROR\<close> and leaves the driver
  as it was, without a call of the platform; and in a sweep setup with the clock
  configured, on any bus, no word with a selector of that parameter's register
  (\<open>1100\<close>/\<open>1101\<close>, \<open>0010\<close>/\<open>0011\<close>, \<open>0100\<close>/\<open>0110\<close>, \<open>0001\<close>) is transferred. The
  control-register step precedes every check: when the bus is clear at the first poll
  the run starts by lowering CTRL and transferring the control word in its FSYNC frame,
  whatever the parameters are. Nothing is said of the steps after an out-of-range step
  or of the value returned.
\<close>

theorem sweep_checks_each_parameter_in_its_step:
  assumes clock: "ad5932MCLK s \<noteq> 0"
    and flags: "WAVE_TYPE \<in> {TRIANGLE_OUT, SINE_OUT}" "MSBOUT \<in> {MSBOUT_DISABLE, MSBOUT_EN}"
      "TRIGGER \<in> {AUTOMATIC_TRIGGER, EXTERNAL_TRIGGER}"
      "SYNCSEL \<in> {SYNCSEL_SUBSEQVENT, SYNCSEL_END}" "SYNCOUT \<in> {SYNCOUT_DISABLE, SYNCOUT_EN}"
  shows "(startFreq < 1 \<or> 0x7FFFFFFF < startFreq \<longrightarrow>
            AD5932_SetStartFrequency p startFreq t = Inr (AD5932_PARAM_ERROR, t)) \<and>
         (0x7FFFFFFF < deltaFrerq \<longrightarrow>
            AD5932_SetDeltaFrequency p deltaFrerq SWEEPTYPE t = Inr (AD5932_PARAM_ERROR, t)) \<and>
         ((ucast incIntervall :: u16) < 2 \<or> 2047 < (ucast incIntervall :: u16) \<longrightarrow>
            AD5932_SetIncrementIntervall p (ucast incIntervall) INCRTYPE t
              = (AD5932_PARAM_ERROR, t)) \<and>
         ((ucast increment :: u16) < 2 \<or> 4095 < (ucast increment :: u16) \<longrightarrow>
            AD5932_SetIncrement p (ucast increment) t = (AD5932_PARAM_ERROR, t)) \<and>
         (\<exists>ret s' ext.
            AD5932_SweepGenerator p startFreq deltaFrerq increment INCRTYPE incIntervall
              SWEEPTYPE WAVE_TYPE MSBOUT TRIGGER SYNCSEL SYNCOUT s = Inr (ret, s') \<and>
            trace s' = trace s @ ext \<and>
            (SSP_GetTransferStatus p (trace s @ [SPARE2_off]) = SSP_STATUS_CLEAR p \<longrightarrow>
               (\<exists>rest. ext =
                  [SPARE2_off, GetTransferStatus, SPARE0_off,
                   Transfer (ad5932CMD (snd (AD5932_SetControlRegister p DAC_EN WAVE_TYPE MSBOUT
                      TRIGGER SYNCSEL SYNCOUT (AD5932_SetCTRLPin False s)))),
                   SPARE0_on] @ rest)) \<and>
            (startFreq < 1 \<or> 0x7FFFFFFF < startFreq \<longrightarrow>
               (\<forall>w\<in>set (transferred ext). drop_bit 12 w \<notin> {0xC, 0xD})) \<and>
            (0x7FFFFFFF < deltaFrerq \<longrightarrow>
               (\<forall>w\<in>set (transferred ext). drop_bit 12 w \<notin> {0x2, 0x3})) \<and>
            ((ucast incIntervall :: u16) < 2 \<or> 2047 < (ucast incIntervall :: u16) \<longrightarrow>
               (\<forall>w\<in>set (transferred ext). drop_bit 12 w \<notin> {0x4, 0x6})) \<and>
            ((ucast increment :: u16) < 2 \<or> 4095 < (ucast increment :: u16) \<longrightarrow>
               (\<forall>w\<in>set (transferred ext). drop_bit 12 w \<noteq> 0x1)))"
proof (intro conjI impI)
  assume "startFreq < 1 \<or> 0x7FFFFFFF < startFreq"
  then show "AD5932_SetStartFrequency p startFreq t = Inr (AD5932_PARAM_ERROR, t)"
    by (auto simp: AD5932_SetStartFrequency_def)
next
  assume "0x7FFFFFFF < deltaFrerq"
  then show "AD5932_SetDeltaFrequency p deltaFrerq SWEEPTYPE t = Inr (AD5932_PARAM_ERROR, t)"
    by (simp add: AD5932_SetDeltaFrequency_def)
next
  assume "(ucast incIntervall :: u16) < 2 \<or> 2047 < (ucast incIntervall :: u16)"
  then show "AD5932_SetIncrementIntervall p (ucast incIntervall) INCRTYPE t
               = (AD5932_PARAM_ERROR, t)"
    by (auto simp: AD5932_SetIncrementIntervall_def)
next
  assume "(ucast increment :: u16) < 2 \<or> 4095 < (ucast increment :: u16)"
  then show "AD5932_SetIncrement p (ucast increment) t = (AD5932_PARAM_ERROR, t)"
    by (auto simp: AD5932_SetIncrement_def)
next
  let ?s0 = "AD5932_SetCTRLPin False s"
  let ?cw = "ad5932CMD (snd (AD5932_SetControlRegister p DAC_EN WAVE_TYPE MSBOUT TRIGGER
                SYNCSEL SYNCOUT ?s0))"
  have s0: "trace ?s0 = trace s @ [SPARE2_off]"
    by (simp add: AD5932_SetCTRLPin_def call_def)
  have f: "DAC_EN \<in> {0, 1}" "WAVE_TYPE \<in> {0, 1}" "MSBOUT \<in> {0, 1}" "TRIGGER \<in> {0, 1}"
      "SYNCSEL \<in> {0, 1}" "SYNCOUT \<in> {0, 1}"
    using flags by auto
  obtain r1 s1 where c1: "AD5932_SetControlRegister p DAC_EN WAVE_TYPE MSBOUT TRIGGER SYNCSEL
                            SYNCOUT ?s0 = (r1, s1)"
    by force
  then have cw: "ad5932CMD s1 = ?cw" by simp
  from SetControlRegister_extends [OF f c1] obtain e1 where e1:
      "ad5932MCLK s1 = ad5932MCLK s" "trace s1 = trace s @ [SPARE2_off] @ e1"
      "\<forall>w\<in>set (transferred e1). drop_bit 12 w = 0x0"
      "SSP_GetTransferStatus p (trace s @ [SPARE2_off]) = SSP_STATUS_CLEAR p \<longrightarrow>
         e1 = [GetTransferStatus, SPARE0_off, Transfer ?cw, SPARE0_on]"
    unfolding s0 cw by auto
  have m1: "ad5932MCLK s1 \<noteq> 0" using e1(1) clock by simp
  obtain r2 s2 where c2: "AD5932_SetStartFrequency p startFreq s1 = Inr (r2, s2)"
    using SetStartFrequency_returns [OF m1] by blast
  from SetStartFrequency_extends [OF c2] obtain e2 where e2:
      "ad5932MCLK s2 = ad5932MCLK s1" "trace s2 = trace s1 @ e2"
      "\<forall>w\<in>set (transferred e2). drop_bit 12 w \<in> {0xC, 0xD}"
      "startFreq < 1 \<or> 0x7FFFFFFF < startFreq \<longrightarrow> e2 = []"
    by auto
  have m2: "ad5932MCLK s2 \<noteq> 0" using e2(1) m1 by simp
  obtain r3 s3 where c3: "AD5932_SetDeltaFrequency p deltaFrerq SWEEPTYPE s2 = Inr (r3, s3)"
    using SetDeltaFrequency_returns [OF m2] by blast
  from SetDeltaFrequency_extends [OF c3] obtain e3 where e3:
      "trace s3 = trace s2 @ e3"
      "\<forall>w\<in>set (transferred e3). drop_bit 12 w \<in> {0x2, 0x3}"
      "0x7FFFFFFF < deltaFrerq \<longrightarrow> e3 = []"
    by auto
  obtain r4 s4 where
    c4: "AD5932_SetIncrementIntervall p (ucast incIntervall) INCRTYPE s3 = (r4, s4)"
    by force
  from SetIncrementIntervall_extends [OF c4] obtain e4 where e4:
      "trace s4 = trace s3 @ e4"
      "\<forall>w\<in>set (transferred e4). drop_bit 12 w \<in> {0x4, 0x0}"
      "(ucast incIntervall :: u16) < 2 \<or> 2047 < (ucast incIntervall :: u16) \<longrightarrow> e4 = []"
    by auto
  obtain r5 s5 where c5: "AD5932_SetIncrement p (ucast increment) s4 = (r5, s5)"
    by force
  from SetIncrement_extends [OF c5] obtain e5 where e5:
      "trace s5 = trace s4 @ e5"
      "\<forall>w\<in>set (transferred e5). drop_bit 12 w = 0x1"
      "(ucast increment :: u16) < 2 \<or> 4095 < (ucast increment :: u16) \<longrightarrow> e5 = []"
    by auto
  have trig: "trace (AD5932_TriggerCTRLPin s5) = trace s5 @ [SPARE2_on, delay_us 100, SPARE2_off]"
    by (simp add: AD5932_TriggerCTRLPin_def AD5932_SetCTRLPin_def call_def Let_def)
  have "\<exists>ret s'. AD5932_SweepGenerator p startFreq deltaFrerq increment INCRTYPE incIntervall
                    SWEEPTYPE WAVE_TYPE MSBOUT TRIGGER SYNCSEL SYNCOUT s = Inr (ret, s') \<and>
                  s' \<in> {s1, s2, s3, s4, s5, AD5932_TriggerCTRLPin s5}"
    unfolding AD5932_SweepGenerator_def Let_def
    using c1 c2 c3 c4 c5 by simp
  then obtain ret s' where run:
      "AD5932_SweepGenerator p startFreq deltaFrerq increment INCRTYPE incIntervall
         SWEEPTYPE WAVE_TYPE MSBOUT TRIGGER SYNCSEL SYNCOUT s = Inr (ret, s')"
    and s': "s' \<in> {s1, s2, s3, s4, s5, AD5932_TriggerCTRLPin s5}"
    by blast
  have "\<exists>k. trace s' = trace s @ ([SPARE2_off] @ e1) @ k \<and>
            set (transferred k) \<subseteq> set (transferred e2) \<union> set (transferred e3)
              \<union> set (transferred e4) \<union> set (transferred e5)"
  proof -
    consider "s' = s1" | "s' = s2" | "s' = s3" | "s' = s4" | "s' = s5"
      | "s' = AD5932_TriggerCTRLPin s5"
      using s' by blast
    then show ?thesis
    proof cases
      case 1
      then have "trace s' = trace s @ ([SPARE2_off] @ e1) @ []" using e1(2) by simp
      then show ?thesis by (intro exI [of _ "[]"]) simp
    next
      case 2
      then have "trace s' = trace s @ ([SPARE2_off] @ e1) @ e2" using e1(2) e2(2) by simp
      then show ?thesis by (intro exI [of _ e2]) auto
    next
      case 3
      then have "trace s' = trace s @ ([SPARE2_off] @ e1) @ (e2 @ e3)"
        using e1(2) e2(2) e3(1) by simp
      then show ?thesis by (intro exI [of _ "e2 @ e3"]) (auto simp: transferred_append)
    next
      case 4
      then have "trace s' = trace s @ ([SPARE2_off] @ e1) @ (e2 @ e3 @ e4)"
        using e1(2) e2(2) e3(1) e4(1) by simp
      then show ?thesis by (intro exI [of _ "e2 @ e3 @ e4"]) (auto simp: transferred_append)
    next
      case 5
      then have "trace s' = trace s @ ([SPARE2_off] @ e1) @ (e2 @ e3 @ e4 @ e5)"
        using e1(2) e2(2) e3(1) e4(1) e5(1) by simp
      then show ?thesis
        by (intro exI [of _ "e2 @ e3 @ e4 @ e5"]) (auto simp: transferred_append)
    next
      case 6
      then have "trace s' = trace s @ ([SPARE2_off] @ e1) @
                   (e2 @ e3 @ e4 @ e5 @ [SPARE2_on, delay_us 100, SPARE2_off])"
        using e1(2) e2(2) e3(1) e4(1) e5(1) trig by simp
      then show ?thesis
        by (intro exI [of _ "e2 @ e3 @ e4 @ e5 @ [SPARE2_on, delay_us 100, SPARE2_off]"])
          (auto simp: transferred_append)
    qed
  qed
  then obtain k where k: "trace s' = trace s @ ([SPARE2_off] @ e1) @ k"
      "set (transferred k) \<subseteq> set (transferred e2) \<union> set (transferred e3)
              \<union> set (transferred e4) \<union> set (transferred e5)"
    by blast
  define ext where "ext = ([SPARE2_off] @ e1) @ k"
  have words: "set (transferred ext) \<subseteq> set (transferred e1) \<union> set (transferred e2)
                 \<union> set (transferred e3) \<union> set (transferred e4) \<union> set (transferred e5)"
    using k(2) by (auto simp: ext_def transferred_append)
  have first: "\<exists>rest. ext = [SPARE2_off, GetTransferStatus, SPARE0_off, Transfer ?cw,
                              SPARE0_on] @ rest"
    if "SSP_GetTransferStatus p (trace s @ [SPARE2_off]) = SSP_STATUS_CLEAR p"
    using e1(4) that by (simp add: ext_def)
  have start: "\<forall>w\<in>set (transferred ext). drop_bit 12 w \<notin> {0xC, 0xD}"
    if "startFreq < 1 \<or> 0x7FFFFFFF < startFreq"
  proof
    fix w assume "w \<in> set (transferred ext)"
    with words e2(4) that have "w \<in> set (transferred e1) \<union> set (transferred e3)
        \<union> set (transferred e4) \<union> set (transferred e5)" by auto
    with e1(3) e3(2) e4(2) e5(2) have "drop_bit 12 w \<in> {0x0, 0x2, 0x3, 0x4, 0x1}" by auto
    then show "drop_bit 12 w \<notin> {0xC, 0xD}" by auto
  qed
  have delta: "\<forall>w\<in>set (transferred ext). drop_bit 12 w \<notin> {0x2, 0x3}"
    if "0x7FFFFFFF < deltaFrerq"
  proof
    fix w assume "w \<in> set (transferred ext)"
    with words e3(3) that have "w \<in> set (transferred e1) \<union> set (transferred e2)
        \<union> set (transferred e4) \<union> set (transferred e5)" by auto
    with e1(3) e2(3) e4(2) e5(2) have "drop_bit 12 w \<in> {0x0, 0xC, 0xD, 0x4, 0x1}" by auto
    then show "drop_bit 12 w \<notin> {0x2, 0x3}" by auto
  qed
  have interval: "\<forall>w\<in>set (transferred ext). drop_bit 12 w \<notin> {0x4, 0x6}"
    if "(ucast incIntervall :: u16) < 2 \<or> 2047 < (ucast incIntervall :: u16)"
  proof
    fix w assume "w \<in> set (transferred ext)"
    with words e4(3) that have "w \<in> set (transferred e1) \<union> set (transferred e2)
        \<union> set (transferred e3) \<union> set (transferred e5)" by auto
    with e1(3) e2(3) e3(2) e5(2) have "drop_bit 12 w \<in> {0x0, 0xC, 0xD, 0x2, 0x3, 0x1}" by auto
    then show "drop_bit 12 w \<notin> {0x4, 0x6}" by auto
  qed
  have count: "\<forall>w\<in>set (transferred ext). drop_bit 12 w \<noteq> 0x1"
    if "(ucast increment :: u16) < 2 \<or> 4095 < (ucast increment :: u16)"
  proof
    fix w assume "w \<in> set (transferred ext)"
    with words e5(3) that have "w \<in> set (transferred e1) \<union> set (transferred e2)
        \<union> set (transferred e3) \<union> set (transferred e4)" by auto
    with e1(3) e2(3) e3(2) e4(2) have "drop_bit 12 w \<in> {0x0, 0xC, 0xD, 0x2, 0x3, 0x4}" by auto
    then show "drop_bit 12 w \<noteq> 0x1" by auto
  qed
  have "trace s' = trace s @ ext" using k(1) by (simp add: ext_def)
  with run first start delta interval count
  show "\<exists>ret s' ext.
            AD5932_SweepGenerator p startFreq deltaFrerq increment INCRTYPE incIntervall
              SWEEPTYPE WAVE_TYPE MSBOUT TRIGGER SYNCSEL SYNCOUT s = Inr (ret, s') \<and>
            trace s' = trace s @ ext \<and>
            (SSP_GetTransferStatus p (trace s @ [SPARE2_off]) = SSP_STATUS_CLEAR p \<longrightarrow>
               (\<exists>rest. ext =
                  [SPARE2_off, GetTransferStatus, SPARE0_off,
                   Transfer (ad5932CMD (snd (AD5932_SetControlRegister p DAC_EN WAVE_TYPE MSBOUT
                      TRIGGER SYNCSEL SYNCOUT (AD5932_SetCTRLPin False s)))),
                   SPARE0_on] @ rest)) \<and>
            (startFreq < 1 \<or> 0x7FFFFFFF < startFreq \<longrightarrow>
               (\<forall>w\<in>set (transferred ext). drop_bit 12 w \<notin> {0xC, 0xD})) \<and>
            (0x7FFFFFFF < deltaFrerq \<longrightarrow>
               (\<forall>w\<in>set (transferred ext). drop_bit 12 w \<notin> {0x2, 0x3})) \<and>
            ((ucast incIntervall :: u16) < 2 \<or> 2047 < (ucast incIntervall :: u16) \<longrightarrow>
               (\<forall>w\<in>set (transferred ext). drop_bit 12 w \<notin> {0x4, 0x6})) \<and>
            ((ucast increment :: u16) < 2 \<or> 4095 < (ucast increment :: u16) \<longrightarrow>
               (\<forall>w\<in>set (transferred ext). drop_bit 12 w \<noteq> 0x1))"
    by blast
qed

text \<open>
  Two runs on a bus that takes every word, the clock at 50 MHz: one with all four
  parameters out of range (only the control word is transferred), one with the count
  alone out of range (no word with selector \<open>0001\<close> is transferred).
\<close>

theorem sweep_checks_each_parameter_in_its_step_witness:
  "AD5932_SetStartFrequency healthy_bus 0 boot = Inr (AD5932_PARAM_ERROR, boot) \<and>
   AD5932_SetDeltaFrequency healthy_bus 0x80000000 INCREMENTAL_SWEEP boot
     = Inr (AD5932_PARAM_ERROR, boot) \<and>
   AD5932_SetIncrementIntervall healthy_bus 5000 WAVE_OUT_BASED boot
     = (AD5932_PARAM_ERROR, boot) \<and>
   AD5932_SetIncrement healthy_bus 5000 boot = (AD5932_PARAM_ERROR, boot) \<and>
   (\<exists>ret s' ext.
      AD5932_SweepGenerator healthy_bus 0 0x80000000 5000 WAVE_OUT_BASED 5000
        INCREMENTAL_SWEEP SINE_OUT MSBOUT_EN AUTOMATIC_TRIGGER SYNCSEL_END SYNCOUT_EN
        (AD5932_Init 50000000 boot) = Inr (ret, s') \<and>
      trace s' = trace (AD5932_Init 50000000 boot) @ ext \<and>
      (\<exists>rest. ext = [SPARE2_off, GetTransferStatus, SPARE0_off, Transfer 0x0FDF, SPARE0_on]
                       @ rest) \<and>
      (\<forall>w\<in>set (transferred ext). drop_bit 12 w \<notin> {0xC, 0xD}) \<and>
      (\<forall>w\<in>set (transferred ext). drop_bit 12 w \<notin> {0x2, 0x3}) \<and>
      (\<forall>w\<in>set (transferred ext). drop_bit 12 w \<notin> {0x4, 0x6}) \<and>
      (\<forall>w\<in>set (transferred ext). drop_bit 12 w \<noteq> 0x1)) \<and>
   (\<exists>ret s' ext.
      AD5932_SweepGenerator healthy_bus 1000 1000 5000 WAVE_OUT_BASED 2000
        INCREMENTAL_SWEEP SINE_OUT MSBOUT_EN AUTOMATIC_TRIGGER SYNCSEL_END SYNCOUT_EN
        (AD5932_Init 50000000 boot) = Inr (ret, s') \<and>
      trace s' = trace (AD5932_Init 50000000 boot) @ ext \<and>
      (\<exists>rest. ext = [SPARE2_off, GetTransferStatus, SPARE0_off, Transfer 0x0FDF, SPARE0_on]
                       @ rest) \<and>
      (\<forall>w\<in>set (transferred ext). drop_bit 12 w \<noteq> 0x1))"
proof -
  have clock: "ad5932MCLK (AD5932_Init 50000000 boot) \<noteq> 0"
    by (simp add: driver_defs)
  have flags: "SINE_OUT \<in> {TRIANGLE_OUT, SINE_OUT}" "MSBOUT_EN \<in> {MSBOUT_DISABLE, MSBOUT_EN}"
      "AUTOMATIC_TRIGGER \<in> {AUTOMATIC_TRIGGER, EXTERNAL_TRIGGER}"
      "SYNCSEL_END \<in> {SYNCSEL_SUBSEQVENT, SYNCSEL_END}" "SYNCOUT_EN \<in> {SYNCOUT_DISABLE, SYNCOUT_EN}"
    by simp_all
  have first: "SSP_GetTransferStatus healthy_bus
                 (trace (AD5932_Init 50000000 boot) @ [SPARE2_off])
               = SSP_STATUS_CLEAR healthy_bus"
    by (simp add: healthy_bus_def)
  have cw: "ad5932CMD (snd (AD5932_SetControlRegister healthy_bus DAC_EN SINE_OUT MSBOUT_EN
               AUTOMATIC_TRIGGER SYNCSEL_END SYNCOUT_EN
               (AD5932_SetCTRLPin False (AD5932_Init 50000000 boot)))) = 0x0FDF"
    by (simp add: driver_defs)
  have out: "(0 :: u32) < 1" "(0x7FFFFFFF :: u32) < 0x80000000"
      "2047 < (ucast (5000 :: u32) :: u16)" "4095 < (ucast (5000 :: u32) :: u16)"
    by simp_all
  have narrow: "(ucast (5000 :: u32) :: u16) = 5000" by simp
  note all = sweep_checks_each_parameter_in_its_step [OF clock flags,
      where p = healthy_bus and t = boot and startFreq = 0 and deltaFrerq = "0x80000000"
        and incIntervall = 5000 and increment = 5000 and INCRTYPE = WAVE_OUT_BASED
        and SWEEPTYPE = INCREMENTAL_SWEEP, unfolded cw narrow]
  note count = sweep_checks_each_parameter_in_its_step [OF clock flags,
      where p = healthy_bus and t = boot and startFreq = 1000 and deltaFrerq = 1000
        and incIntervall = 2000 and increment = 5000 and INCRTYPE = WAVE_OUT_BASED
        and SWEEPTYPE = INCREMENTAL_SWEEP, unfolded cw narrow]
  from all out first narrow
  have a: "AD5932_SetStartFrequency healthy_bus 0 boot = Inr (AD5932_PARAM_ERROR, boot)"
      "AD5932_SetDeltaFrequency healthy_bus 0x80000000 INCREMENTAL_SWEEP boot
         = Inr (AD5932_PARAM_ERROR, boot)"
      "AD5932_SetIncrementIntervall healthy_bus 5000 WAVE_OUT_BASED boot
         = (AD5932_PARAM_ERROR, boot)"
      "AD5932_SetIncrement healthy_bus 5000 boot = (AD5932_PARAM_ERROR, boot)"
    by simp_all
  from all out first narrow
  have b: "\<exists>ret s' ext.
      AD5932_SweepGenerator healthy_bus 0 0x80000000 5000 WAVE_OUT_BASED 5000
        INCREMENTAL_SWEEP SINE_OUT MSBOUT_EN AUTOMATIC_TRIGGER SYNCSEL_END SYNCOUT_EN
        (AD5932_Init 50000000 boot) = Inr (ret, s') \<and>
      trace s' = trace (AD5932_Init 50000000 boot) @ ext \<and>
      (\<exists>rest. ext = [SPARE2_off, GetTransferStatus, SPARE0_off, Transfer 0x0FDF, SPARE0_on]
                       @ rest) \<and>
      (\<forall>w\<in>set (transferred ext). drop_bit 12 w \<notin> {0xC, 0xD}) \<and>
      (\<forall>w\<in>set (transferred ext). drop_bit 12 w \<notin> {0x2, 0x3}) \<and>
      (\<forall>w\<in>set (transferred ext). drop_bit 12 w \<notin> {0x4, 0x6}) \<and>
      (\<forall>w\<in>set (transferred ext). drop_bit 12 w \<noteq> 0x1)"
    by simp
  from count out(4) first narrow
  have c: "\<exists>ret s' ext.
      AD5932_SweepGenerator healthy_bus 1000 1000 5000 WAVE_OUT_BASED 2000
        INCREMENTAL_SWEEP SINE_OUT MSBOUT_EN AUTOMATIC_TRIGGER SYNCSEL_END SYNCOUT_EN
        (AD5932_Init 50000000 boot) = Inr (ret, s') \<and>
      trace s' = trace (AD5932_Init 50000000 boot) @ ext \<and>
      (\<exists>rest. ext = [SPARE2_off, GetTransferStatus, SPARE0_off, Transfer 0x0FDF, SPARE0_on]
                       @ rest) \<and>
      (\<forall>w\<in>set (transferred ext). drop_bit 12 w \<noteq> 0x1)"
    by auto
  from a b c show ?thesis by blast
qed

text \<open>
  The claim as stated fails: with an increment count of 1 the six words of the first four
  steps are on the bus before the count is looked at.
\<close>

theorem sweep_increment_out_of_range_counterexample:
  "AD5932_SweepGenerator healthy_bus 1000 1000 1 WAVE_OUT_BASED 2000 INCREMENTAL_SWEEP
       SINE_OUT MSBOUT_EN AUTOMATIC_TRIGGER SYNCSEL_END SYNCOUT_EN (AD5932_Init 50000000 boot) =
     Inr (0, \<lparr>ad5932CMD = 0x47D0, ad5932MCLK = 50000000,
              trace = [SPARE2_off, SPARE3_off, SPARE0_on, SPARE1_off,
                       SPARE2_off,
                       GetTransferStatus, SPARE0_off, Transfer 0x0FDF, SPARE0_on,
                       GetTransferStatus, SPARE0_off, Transfer 0xC14F, SPARE0_on,
                       GetTransferStatus, SPARE0_off, Transfer 0xD000, SPARE0_on,
                       GetTransferStatus, SPARE0_off, Transfer 0x214F, SPARE0_on,
                       GetTransferStatus, SPARE0_off, Transfer 0x3000, SPARE0_on,
                       GetTransferStatus, SPARE0_off, Transfer 0x47D0, SPARE0_on,
                       SPARE2_on, delay_us 100, SPARE2_off]\<rparr>) \<and>
   (1 :: u32) < 2"
  by (simp add: AD5932_SweepGenerator_def driver_defs)

end
